theory Spec2Isabelle
  imports Complex_Main "HOL-Library.Word"
begin

section \<open>JavaScript values\<close>

text \<open>
  A JavaScript string is a sequence of UTF-16 code units. String literals of the source
  are ASCII and are written through \<open>ascii\<close>.
\<close>

type_synonym jsstring = "16 word list"

definition ascii :: "string \<Rightarrow> jsstring" where
  "ascii s = map of_char s"

text \<open>What a rejected promise or a \<open>throw\<close> carries.\<close>

datatype js_error =
    Error string
  | TypeError
  | URIError
  | SyntaxError
  | FetchFailed

text \<open>
  A number is a double: not-a-number, an infinity (with its sign) or a finite value,
  which is a rational.
\<close>

datatype jsnum = NaN | Infinity bool | Finite rat

datatype jsval =
    JUndefined
  | JNull
  | JBool bool
  | JNum jsnum
  | JStr jsstring
  | JArr "jsval list"
  | JObj "(jsstring \<times> jsval) list"

text \<open>\<open>!v\<close> is \<open>\<not> truthy v\<close>.\<close>

fun truthy :: "jsval \<Rightarrow> bool" where
  "truthy JUndefined = False"
| "truthy JNull = False"
| "truthy (JBool b) = b"
| "truthy (JNum NaN) = False"
| "truthy (JNum (Infinity s)) = True"
| "truthy (JNum (Finite q)) = (q \<noteq> 0)"
| "truthy (JStr s) = (s \<noteq> [])"
| "truthy (JArr xs) = True"
| "truthy (JObj kvs) = True"

text \<open>
  An object is the list of its own properties, each name once, as \<open>JSON.parse\<close> builds
  it. \<open>v.name\<close>, for a name that no built-in prototype defines (\<open>translations\<close> and
  \<open>text\<close> are such names): reading a property of \<open>undefined\<close> or \<open>null\<close> throws a
  TypeError, an object gives its own property or \<open>undefined\<close>, every other value gives
  \<open>undefined\<close>.
\<close>

fun get_member :: "jsval \<Rightarrow> jsstring \<Rightarrow> js_error + jsval" where
  "get_member JUndefined name = Inl TypeError"
| "get_member JNull name = Inl TypeError"
| "get_member (JObj kvs) name =
     Inr (case map_of kvs name of None \<Rightarrow> JUndefined | Some v \<Rightarrow> v)"
| "get_member v name = Inr JUndefined"

text \<open>\<open>v[0]\<close>: the first element of an array, the first code unit of a string, the
  property \<open>"0"\<close> of an object.\<close>

fun get_index0 :: "jsval \<Rightarrow> js_error + jsval" where
  "get_index0 JUndefined = Inl TypeError"
| "get_index0 JNull = Inl TypeError"
| "get_index0 (JArr xs) = Inr (case xs of [] \<Rightarrow> JUndefined | x # _ \<Rightarrow> x)"
| "get_index0 (JStr s) = Inr (case s of [] \<Rightarrow> JUndefined | c # _ \<Rightarrow> JStr [c])"
| "get_index0 (JObj kvs) =
     Inr (case map_of kvs (ascii ''0'') of None \<Rightarrow> JUndefined | Some v \<Rightarrow> v)"
| "get_index0 v = Inr JUndefined"

text \<open>Sequencing of computations that may throw.\<close>

definition bind :: "js_error + 'a \<Rightarrow> ('a \<Rightarrow> js_error + 'b) \<Rightarrow> js_error + 'b" where
  "bind m f = (case m of Inl e \<Rightarrow> Inl e | Inr x \<Rightarrow> f x)"

section \<open>The built-in \<open>encodeURIComponent\<close>\<close>

text \<open>
  ECMAScript's \<open>Encode\<close> with the unreserved set of \<open>encodeURIComponent\<close>: letters,
  digits and \<open>- _ . ! ~ * ' ( )\<close> are kept; every other code point is written as the
  octets of its UTF-8 form, each as \<open>%XX\<close> in upper-case hexadecimal; a surrogate code
  unit that is not part of a pair throws a URIError.
\<close>

definition uriUnescaped :: "16 word \<Rightarrow> bool" where
  "uriUnescaped c \<longleftrightarrow>
     c \<in> set (ascii
       ''ABCDEFGHIJKLMNOPQRSTUVWXYZabcdefghijklmnopqrstuvwxyz0123456789-_.!~*'()'')"

definition isLeadSurrogate :: "16 word \<Rightarrow> bool" where
  "isLeadSurrogate c \<longleftrightarrow> 0xD800 \<le> unat c \<and> unat c \<le> 0xDBFF"

definition isTrailSurrogate :: "16 word \<Rightarrow> bool" where
  "isTrailSurrogate c \<longleftrightarrow> 0xDC00 \<le> unat c \<and> unat c \<le> 0xDFFF"

definition surrogatePair :: "16 word \<Rightarrow> 16 word \<Rightarrow> nat" where
  "surrogatePair lead trail =
     (unat lead - 0xD800) * 0x400 + (unat trail - 0xDC00) + 0x10000"

definition utf8 :: "nat \<Rightarrow> nat list" where
  "utf8 cp =
     (if cp < 0x80 then [cp]
      else if cp < 0x800 then [0xC0 + cp div 64, 0x80 + cp mod 64]
      else if cp < 0x10000 then
        [0xE0 + cp div 4096, 0x80 + (cp div 64) mod 64, 0x80 + cp mod 64]
      else
        [0xF0 + cp div 262144, 0x80 + (cp div 4096) mod 64,
         0x80 + (cp div 64) mod 64, 0x80 + cp mod 64])"

definition hexDigit :: "nat \<Rightarrow> 16 word" where
  "hexDigit n = ascii ''0123456789ABCDEF'' ! (n mod 16)"

definition percent :: "nat \<Rightarrow> jsstring" where
  "percent octet = [0x25, hexDigit (octet div 16), hexDigit octet]"

definition escaped :: "nat \<Rightarrow> jsstring" where
  "escaped cp = concat (map percent (utf8 cp))"

fun encodeURIComponent :: "jsstring \<Rightarrow> js_error + jsstring" where
  "encodeURIComponent [] = Inr []"
| "encodeURIComponent [c] =
     (if uriUnescaped c then Inr [c]
      else if isLeadSurrogate c \<or> isTrailSurrogate c then Inl URIError
      else Inr (escaped (unat c)))"
| "encodeURIComponent (c # d # ds) =
     (if uriUnescaped c then
        bind (encodeURIComponent (d # ds)) (\<lambda>r. Inr (c # r))
      else if isTrailSurrogate c then Inl URIError
      else if isLeadSurrogate c then
        (if isTrailSurrogate d then
           bind (encodeURIComponent ds) (\<lambda>r. Inr (escaped (surrogatePair c d) @ r))
         else Inl URIError)
      else bind (encodeURIComponent (d # ds)) (\<lambda>r. Inr (escaped (unat c) @ r)))"

section \<open>The translation client\<close>

datatype http_method = GET | POST

record request =
  url :: jsstring
  "method" :: http_method
  headers :: "(string \<times> jsstring) list"

text \<open>
  A response, as far as the client reads it: only \<open>res.json()\<close> is called, which rejects
  when the body is not JSON and otherwise resolves with the parsed value. The status is
  never looked at.
\<close>

record response =
  status :: nat
  json :: "js_error + jsval"

definition base :: jsstring where
  "base = ascii ''https://api-free.deepl.com/v2/translate''"

text \<open>\<open>engine.fetch\<close>: the request URL. Only \<open>text\<close> goes through
  \<open>encodeURIComponent\<close>.\<close>

definition engine_fetch :: "jsstring \<Rightarrow> jsstring \<Rightarrow> jsstring \<Rightarrow> js_error + jsstring" where
  "engine_fetch from to text =
     bind (encodeURIComponent text) (\<lambda>encoded.
       Inr (base @ ascii ''?target_lang='' @ to
            @ (if from = ascii ''null'' then [] else ascii ''&source_lang='' @ from)
            @ ascii ''&text='' @ encoded))"

text \<open>\<open>body.translations[0].text\<close>.\<close>

definition translations_0_text :: "jsval \<Rightarrow> js_error + jsval" where
  "translations_0_text body =
     bind (get_member body (ascii ''translations'')) (\<lambda>ts.
       bind (get_index0 ts) (\<lambda>t. get_member t (ascii ''text'')))"

text \<open>\<open>engine.parse\<close>.\<close>

definition engine_parse :: "response \<Rightarrow> js_error + jsval" where
  "engine_parse res =
     bind (json res) (\<lambda>body.
       bind (translations_0_text body) (\<lambda>t.
         if \<not> truthy t then Inl (Error ''Invalid Translation!'')
         else translations_0_text body))"

text \<open>
  A template literal writes \<open>undefined\<close> for a setting that is not stored.
\<close>

definition template :: "jsstring option \<Rightarrow> jsstring" where
  "template v = (case v of None \<Rightarrow> ascii ''undefined'' | Some s \<Rightarrow> s)"

definition translate_request :: "jsstring option \<Rightarrow> jsstring \<Rightarrow> request" where
  "translate_request deeplApiKey u =
     \<lparr>url = u, method = POST,
      headers = [(''Authorization'', ascii ''DeepL-Auth-Key '' @ template deeplApiKey)]\<rparr>"

text \<open>
  \<open>translate\<close>. The stored API key and the network (\<open>fetch\<close>: a request is answered
  by a response or the promise rejects) are parameters. The result is the list of
  requests sent and what the returned promise settles to.
\<close>

definition translate ::
  "jsstring option \<Rightarrow> (request \<Rightarrow> js_error + response) \<Rightarrow>
   jsstring \<Rightarrow> jsstring \<Rightarrow> jsstring \<Rightarrow> request list \<times> (js_error + jsval)" where
  "translate deeplApiKey net text fromLang toLang =
     (case engine_fetch fromLang toLang text of
        Inl e \<Rightarrow> ([], Inl e)
      | Inr u \<Rightarrow>
          (let req = translate_request deeplApiKey u
           in ([req], bind (net req) engine_parse)))"

section \<open>The revert cache and the action sheet\<close>

text \<open>
  A message of the host, as far as the plugin reads it. A field that is absent
  (\<open>undefined\<close>) is \<open>None\<close>.
\<close>

record message =
  message_id :: "jsstring option"
  channel_id :: "jsstring option"
  content :: "jsstring option"
  guild_id :: "jsstring option"

record channel =
  channel_guild_id :: "jsstring option"

text \<open>
  An entry of \<open>cachedData\<close> is an object with one property, the message id, holding the
  content before translation. The source compares entries by identity (\<open>!==\<close>), so each
  object carries the reference it was allocated at.
\<close>

record cached =
  obj_ref :: nat
  obj_key :: jsstring
  obj_value :: "jsstring option"

datatype translate_type = Translate | Revert

datatype icon = Icons_Translate | Icons_Revert

text \<open>What the \<open>onPress\<close> closure of the inserted row captures.\<close>

record handler =
  translateType :: translate_type
  originalMessage :: "message option"
  existingCachedObject :: "cached option"
  messageId :: "jsstring option"
  messageContent :: "jsstring option"

text \<open>
  An entry of an array of the render result is \<open>null\<close> or \<open>undefined\<close>, or a React
  element: a button of the host, with its \<open>key\<close> and its \<open>props.message\<close>, or the
  \<open>FormRow\<close> the plugin builds, with its key, label, icon and press handler. An entry
  that is neither an object nor \<open>null\<close> nor \<open>undefined\<close> reads like a button with no
  key and no message.
\<close>

datatype element =
    Nullish
  | Button "jsstring option" "jsstring option"
  | FormRow jsstring translate_type icon handler

text \<open>The reads with optional chaining, \<open>o?.key\<close> and \<open>o?.props?.message\<close>.\<close>

fun item_key :: "element \<Rightarrow> jsstring option" where
  "item_key Nullish = None"
| "item_key (Button k m) = k"
| "item_key (FormRow k l i p) = Some k"

fun props_message :: "element \<Rightarrow> jsstring option" where
  "props_message Nullish = None"
| "props_message (Button k m) = m"
| "props_message (FormRow k l i p) = None"

text \<open>
  The render result \<open>res\<close>: whether it has \<open>props\<close>, and the arrays that the host's
  \<open>findInReactTree\<close> visits in it, in the order of the visit.
\<close>

record render =
  has_props :: bool
  arrays :: "element list list"

datatype toast =
    ModifiedTo jsstring
  | Reverted
  | ToastStartAttempt nat nat
  | ToastFailedOpen
  | ToastRetry nat
  | ToastGivingUp

record edit_event =
  event_message :: message
  log_edit :: bool

datatype log =
    NoProps
  | NoFinalLocation
  | NoContent
  | WakeError js_error
  | StartAttempt nat nat
  | IntermediateError js_error
  | TopLevelError js_error
  | TryingAgain nat
  | GivingUp

datatype command = DebugCommand | TranslateCommand

datatype sheet = ActionSheetFor170 | ActionSheetFor164

datatype member = PatchActionSheet | OnStart | OnStop | RenderPage | GetSettingsPanel

text \<open>
  The state of the plugin and of the host around it: the module variable
  \<open>cachedData\<close> (with the next free object reference), the plugin's commands, the
  patches held by \<open>Patcher\<close>, and what was dispatched, shown, logged and scheduled.
\<close>

record plugin =
  cachedData :: "cached list"
  next_ref :: nat
  commands :: "command list"
  patches :: "sheet list"
  dispatched :: "edit_event list"
  toasts :: "toast list"
  logs :: "log list"
  timers :: "(member \<times> nat) list"

text \<open>
  What the host and the modules outside this file supply: the table
  \<open>Miscellaneous.externalPlugins\<close> (its values, and its entry \<open>dislate\<close>), two
  localized messages, the message and channel stores, the settings, the language table,
  \<open>Format.string\<close> and the built-in \<open>toUpperCase\<close>.
\<close>

record host =
  externalPlugins :: "jsstring list"
  dislate :: jsstring
  MESSAGE_ACTION_REPLY :: "jsstring option"
  EDIT_MESSAGE :: "jsstring option"
  getMessage :: "jsstring option \<Rightarrow> jsstring option \<Rightarrow> message option"
  getChannel :: "jsstring option \<Rightarrow> channel option"
  DislateLangFrom :: jsstring
  DislateLangTo :: jsstring
  DislateLangAbbr :: bool
  LanguageNames :: "jsstring \<Rightarrow> jsstring option"
  Format_string :: "jsstring \<Rightarrow> jsstring"
  toUpperCase :: "jsstring \<Rightarrow> jsstring"

text \<open>\<open>let cachedData = [{"invalid_id": "rosie sucks"}]\<close>.\<close>

definition initial_cachedData :: "cached list" where
  "initial_cachedData =
     [\<lparr>obj_ref = 0, obj_key = ascii ''invalid_id'',
       obj_value = Some (ascii ''rosie sucks'')\<rparr>]"

definition initial_plugin :: plugin where
  "initial_plugin =
     \<lparr>cachedData = initial_cachedData, next_ref = 1, commands = [], patches = [],
      dispatched = [], toasts = [], logs = [], timers = []\<rparr>"

text \<open>\<open>a ?? b\<close>, and \<open>!s\<close> for a string that may be absent.\<close>

definition coalesce :: "'a option \<Rightarrow> 'a option \<Rightarrow> 'a option" where
  "coalesce a b = (case a of None \<Rightarrow> b | Some x \<Rightarrow> Some x)"

definition falsy :: "jsstring option \<Rightarrow> bool" where
  "falsy s \<longleftrightarrow> s = None \<or> s = Some []"

text \<open>
  The filter given to \<open>findInReactTree\<close>: an array with an entry whose \<open>key\<close> and
  \<open>props.message\<close> are both strings. The search returns the first array it visits that
  passes; here, its position among the arrays visited.
\<close>

definition locatable :: "element list \<Rightarrow> bool" where
  "locatable r \<longleftrightarrow>
     List.find (\<lambda>e. item_key e \<noteq> None \<and> props_message e \<noteq> None) r \<noteq> None"

fun findInReactTree :: "element list list \<Rightarrow> nat option" where
  "findInReactTree [] = None"
| "findInReactTree (r # rs) =
     (if locatable r then Some 0 else map_option Suc (findInReactTree rs))"

text \<open>
  \<open>xs.find(callback)\<close> for a callback that may throw: the first entry for which the
  callback is truthy, \<open>undefined\<close> when there is none, and the throw of the callback when
  it throws on an entry before that.
\<close>

fun array_find :: "('a \<Rightarrow> js_error + bool) \<Rightarrow> 'a list \<Rightarrow> js_error + 'a option" where
  "array_find cb [] = Inr None"
| "array_find cb (x # xs) =
     bind (cb x) (\<lambda>b. if b then Inr (Some x) else array_find cb xs)"

text \<open>
  The callbacks of the offset loops. They read \<open>item.key\<close> and \<open>item.props\<close> with no
  optional chaining on \<open>item\<close>, which throws a TypeError when the entry is \<open>null\<close> or
  \<open>undefined\<close>. The first one returns \<open>undefined\<close> for an entry with the plugin's own
  key.
\<close>

definition key_is :: "jsstring \<Rightarrow> jsstring \<Rightarrow> element \<Rightarrow> js_error + bool" where
  "key_is own index item =
     (case item of
        Nullish \<Rightarrow> Inl TypeError
      | _ \<Rightarrow> Inr (item_key item \<noteq> Some own \<and> item_key item = Some index))"

definition message_is :: "jsstring option \<Rightarrow> element \<Rightarrow> js_error + bool" where
  "message_is msg item =
     (case item of
        Nullish \<Rightarrow> Inl TypeError
      | _ \<Rightarrow> Inr (props_message item = msg))"

text \<open>
  \<open>buttonOffset\<close>: one for each value of \<open>externalPlugins\<close> that is the key of an entry
  (entries with the plugin's own key apart), one if a reply button is present, one if an
  edit button is present. The two searches for the reply and the edit button are both
  made before the loop over their results.
\<close>

fun count_plugins ::
  "host \<Rightarrow> element list \<Rightarrow> jsstring list \<Rightarrow> nat \<Rightarrow> js_error + nat" where
  "count_plugins h finalLocation [] offset = Inr offset"
| "count_plugins h finalLocation (index # rest) offset =
     bind (array_find (key_is (dislate h) index) finalLocation) (\<lambda>found.
       count_plugins h finalLocation rest (if found \<noteq> None then offset + 1 else offset))"

definition buttonOffset :: "host \<Rightarrow> element list \<Rightarrow> js_error + nat" where
  "buttonOffset h finalLocation =
     bind (count_plugins h finalLocation (externalPlugins h) 0) (\<lambda>offset1.
       bind (array_find (message_is (MESSAGE_ACTION_REPLY h)) finalLocation) (\<lambda>reply.
         bind (array_find (message_is (EDIT_MESSAGE h)) finalLocation) (\<lambda>edit.
           Inr (fold (\<lambda>item offset. if item \<noteq> None then offset + 1 else offset)
                  [reply, edit] offset1))))"

text \<open>\<open>xs.splice(start, 0, x)\<close> for \<open>start \<ge> 0\<close>: a start beyond the end is the end.\<close>

definition splice_insert :: "nat \<Rightarrow> 'a \<Rightarrow> 'a list \<Rightarrow> 'a list" where
  "splice_insert start x xs =
     (let n = min start (length xs) in take n xs @ x # drop n xs)"

text \<open>\<open>cachedData.find(o => Object.keys(o)[0] === messageId)\<close>.\<close>

definition find_cached :: "cached list \<Rightarrow> jsstring option \<Rightarrow> cached option" where
  "find_cached cache mid = List.find (\<lambda>e. Some (obj_key e) = mid) cache"

text \<open>
  The values \<open>patchActionSheet\<close> computes from its argument \<open>arg\<close>, which is
  \<open>message[0]?.message\<close>: \<open>originalMessage\<close>, the test for content, \<open>messageId\<close>,
  \<open>messageContent\<close>, and the row \<open>mainElement\<close> with the closure of its \<open>onPress\<close>.
\<close>

definition originalMessage_of :: "host \<Rightarrow> message option \<Rightarrow> message option" where
  "originalMessage_of h arg =
     getMessage h (Option.bind arg channel_id) (Option.bind arg message_id)"

definition no_content :: "host \<Rightarrow> message option \<Rightarrow> bool" where
  "no_content h arg \<longleftrightarrow>
     falsy (Option.bind (originalMessage_of h arg) content)
     \<and> falsy (Option.bind arg content)"

definition messageId_of :: "host \<Rightarrow> message option \<Rightarrow> jsstring option" where
  "messageId_of h arg =
     coalesce (Option.bind (originalMessage_of h arg) message_id)
              (Option.bind arg message_id)"

definition messageContent_of :: "host \<Rightarrow> message option \<Rightarrow> jsstring option" where
  "messageContent_of h arg =
     coalesce (Option.bind (originalMessage_of h arg) content)
              (Option.bind arg content)"

definition mainElement :: "host \<Rightarrow> cached list \<Rightarrow> message option \<Rightarrow> element" where
  "mainElement h cache arg =
     (let existing = find_cached cache (messageId_of h arg);
          ttype = (if existing \<noteq> None then Revert else Translate)
      in FormRow (dislate h) ttype
           (if ttype = Translate then Icons_Translate else Icons_Revert)
           \<lparr>translateType = ttype, originalMessage = originalMessage_of h arg,
            existingCachedObject = existing, messageId = messageId_of h arg,
            messageContent = messageContent_of h arg\<rparr>)"

text \<open>
  \<open>patchActionSheet\<close>. The result holds how the call ends (it returns \<open>res\<close>, it ends
  without \<open>return\<close>, or it throws), the render result after the call (the located array
  is changed in place), what was logged, and the call of \<open>unpatch\<close>.
\<close>

datatype outcome = Returned render | Ended | Thrown js_error

record patch_result =
  outcome :: outcome
  res_after :: render
  logged :: "log list"
  unpatched :: bool

definition patchActionSheet ::
  "host \<Rightarrow> cached list \<Rightarrow> message option \<Rightarrow> render \<Rightarrow> patch_result" where
  "patchActionSheet h cache arg res =
     (if \<not> has_props res then
        \<lparr>outcome = Returned res, res_after = res, logged = [NoProps], unpatched = True\<rparr>
      else case findInReactTree (arrays res) of
        None \<Rightarrow>
          \<lparr>outcome = Returned res, res_after = res, logged = [NoFinalLocation],
           unpatched = True\<rparr>
      | Some i \<Rightarrow>
          (let finalLocation = arrays res ! i
           in case buttonOffset h finalLocation of
                Inl e \<Rightarrow>
                  \<lparr>outcome = Thrown e, res_after = res, logged = [], unpatched = True\<rparr>
              | Inr offset \<Rightarrow>
                  if no_content h arg then
                    \<lparr>outcome = Returned res, res_after = res, logged = [NoContent],
                     unpatched = True\<rparr>
                  else
                    \<lparr>outcome = Ended,
                     res_after = res\<lparr>arrays :=
                       (arrays res)
                         [i := splice_insert offset (mainElement h cache arg) finalLocation]\<rparr>,
                     logged = [], unpatched = True\<rparr>))"

section \<open>Pressing the row\<close>

text \<open>
  \<open>existingCachedObject[messageId]\<close>: the one property of the object, read under the
  property key that \<open>messageId\<close> converts to.
\<close>

definition cached_get :: "cached \<Rightarrow> jsstring option \<Rightarrow> jsstring option" where
  "cached_get obj mid = (if obj_key obj = template mid then obj_value obj else None)"

text \<open>The language tag of a translated message.\<close>

definition languageTag :: "host \<Rightarrow> jsstring \<Rightarrow> js_error + jsstring" where
  "languageTag h toLanguage =
     (if DislateLangAbbr h then
        (case LanguageNames h toLanguage of
           None \<Rightarrow> Inl TypeError
         | Some code \<Rightarrow> Inr (toUpperCase h code))
      else Inr (Format_string h toLanguage))"

text \<open>
  The \<open>content\<close> of the edit event: a template of two parts with a space between them.
  Note that \<open>isTranslated\<close> in the source is \<open>translateType === "Translate"\<close>.
\<close>

definition editContent :: "host \<Rightarrow> handler \<Rightarrow> jsstring \<Rightarrow> jsstring \<Rightarrow> js_error + jsstring" where
  "editContent h p toLanguage res =
     (if translateType p = Translate then
        bind (languageTag h toLanguage) (\<lambda>tag.
          Inr (res @ ascii '' '' @ (ascii ''`['' @ tag @ ascii '']`'')))
      else
        (case existingCachedObject p of
           None \<Rightarrow> Inl TypeError
         | Some obj \<Rightarrow> Inr (template (cached_get obj (messageId p)) @ ascii '' '' @ [])))"

text \<open>
  The two updates of \<open>cachedData\<close>: \<open>unshift\<close> of a new object, and the filter that keeps
  every object other than \<open>existingCachedObject\<close>.
\<close>

definition cache_unshift :: "jsstring option \<Rightarrow> jsstring option \<Rightarrow> plugin \<Rightarrow> plugin" where
  "cache_unshift mid mcontent s =
     s\<lparr>cachedData :=
         \<lparr>obj_ref = next_ref s, obj_key = template mid, obj_value = mcontent\<rparr>
           # cachedData s,
       next_ref := Suc (next_ref s)\<rparr>"

definition cache_override :: "cached option \<Rightarrow> cached list \<Rightarrow> cached list" where
  "cache_override existing cache =
     filter (\<lambda>e. Some (obj_ref e) \<noteq> map_option obj_ref existing) cache"

text \<open>
  The call \<open>Translate.string(originalMessage.content, {fromLanguage, toLanguage},
  LanguageNames, !isTranslated)\<close> that \<open>onPress\<close> makes. \<open>Translate.string\<close> is defined
  outside this file; what its promise settles to is a parameter of \<open>press\<close> below.
  After the call \<open>onPress\<close> hides the action sheet, which changes nothing of the state
  kept here.
\<close>

record translate_call =
  call_text :: "jsstring option"
  call_fromLanguage :: jsstring
  call_toLanguage :: jsstring
  call_cancel :: bool

definition onPress :: "host \<Rightarrow> handler \<Rightarrow> js_error + translate_call" where
  "onPress h p =
     (case originalMessage p of
        None \<Rightarrow> Inl TypeError
      | Some m \<Rightarrow>
          Inr \<lparr>call_text = content m, call_fromLanguage = DislateLangFrom h,
               call_toLanguage = DislateLangTo h,
               call_cancel = (\<not> (translateType p = Translate))\<rparr>)"

text \<open>The callback given to \<open>then\<close>, run with the value \<open>res\<close> of the promise.\<close>

definition onTranslated ::
  "host \<Rightarrow> handler \<Rightarrow> jsstring \<Rightarrow> jsstring \<Rightarrow> plugin \<Rightarrow> js_error + plugin" where
  "onTranslated h p toLanguage res s =
     bind (editContent h p toLanguage res) (\<lambda>c.
       case originalMessage p of
         None \<Rightarrow> Inl TypeError
       | Some m \<Rightarrow>
           (case getChannel h (channel_id m) of
              None \<Rightarrow> Inl TypeError
            | Some ch \<Rightarrow>
                (let editEvent =
                       \<lparr>event_message = m\<lparr>content := Some c, guild_id := channel_guild_id ch\<rparr>,
                        log_edit = False\<rparr>;
                     s1 = s\<lparr>dispatched := dispatched s @ [editEvent]\<rparr>;
                     s2 = s1\<lparr>toasts := toasts s1 @
                            [if translateType p = Translate
                             then ModifiedTo (Format_string h (DislateLangTo h))
                             else Reverted]\<rparr>
                 in Inr (if translateType p = Translate
                         then cache_unshift (messageId p) (messageContent p) s2
                         else s2\<lparr>cachedData :=
                                   cache_override (existingCachedObject p) (cachedData s2)\<rparr>))))"

text \<open>
  A press of the row, from \<open>onPress\<close> to the end of the callback, on the state the
  callback finds. An error is a throw of \<open>onPress\<close>, a rejection of the promise, or a
  throw of the callback, and leaves the state as it was.
\<close>

definition press ::
  "host \<Rightarrow> (translate_call \<Rightarrow> js_error + jsstring) \<Rightarrow> handler \<Rightarrow> plugin \<Rightarrow>
   js_error + plugin" where
  "press h Translate_string p s =
     bind (onPress h p) (\<lambda>call.
       bind (Translate_string call) (\<lambda>res.
         onTranslated h p (call_toLanguage call) res s))"

section \<open>Start and stop\<close>

text \<open>
  What the host answers to the calls \<open>onStart\<close> makes: the setting \<open>toastEnable\<close> read in
  the \<open>try\<close> block and read again in the \<open>catch\<close> block, the dispatch that wakes the
  dispatcher, \<open>Toasts.open\<close>, and the installation of the patch (the version test and
  \<open>Patcher.after\<close>), which names the component patched.
\<close>

record start_host =
  toastEnable :: "js_error + bool"
  toastEnable_catch :: "js_error + bool"
  wake :: "js_error + unit"
  Toasts_open :: "toast \<Rightarrow> js_error + unit"
  install :: "js_error + sheet"

text \<open>
  The members of the object \<open>Dislate\<close> that are functions. The other members are the
  array \<open>commands\<close> and the fields of \<open>manifest.json\<close>, which are data.
\<close>

definition Dislate_method :: "string \<Rightarrow> member option" where
  "Dislate_method name =
     map_of [(''patchActionSheet'', PatchActionSheet), (''onStart'', OnStart),
             (''onStop'', OnStop), (''renderPage'', RenderPage),
             (''getSettingsPanel'', GetSettingsPanel)] name"

text \<open>A statement sequence ends normally (\<open>None\<close>) or by a throw.\<close>

definition open_toast :: "start_host \<Rightarrow> toast \<Rightarrow> plugin \<Rightarrow> plugin \<times> js_error option" where
  "open_toast h t s =
     (case Toasts_open h t of
        Inl e \<Rightarrow> (s, Some e)
      | Inr u \<Rightarrow> (s\<lparr>toasts := toasts s @ [t]\<rparr>, None))"

text \<open>The \<open>try\<close> block of \<open>onStart\<close>, after \<open>attempt++\<close>.\<close>

definition start_try ::
  "start_host \<Rightarrow> nat \<Rightarrow> nat \<Rightarrow> plugin \<Rightarrow> plugin \<times> js_error option" where
  "start_try h attempt maxAttempts s =
     (case toastEnable h of
        Inl e \<Rightarrow> (s, Some e)
      | Inr enableToasts \<Rightarrow>
          (let s1 = (case wake h of
                       Inl e \<Rightarrow> s\<lparr>logs := logs s @ [WakeError e]\<rparr>
                     | Inr u \<Rightarrow> s);
               s2 = s1\<lparr>logs := logs s1 @ [StartAttempt attempt maxAttempts]\<rparr>
           in case (if enableToasts
                    then open_toast h (ToastStartAttempt attempt maxAttempts) s2
                    else (s2, None)) of
                (s3, Some e) \<Rightarrow> (s3, Some e)
              | (s3, None) \<Rightarrow>
                  (case install h of
                     Inr sh \<Rightarrow> (s3\<lparr>patches := patches s3 @ [sh]\<rparr>, None)
                   | Inl e \<Rightarrow>
                       (let s4 = s3\<lparr>logs := logs s3 @ [IntermediateError e]\<rparr>
                        in if enableToasts then open_toast h ToastFailedOpen s4
                           else (s4, None)))))"

text \<open>
  The \<open>catch\<close> block of \<open>onStart\<close>. The argument of \<open>setTimeout\<close> is the call
  \<open>this.initializeActionSheet()\<close>, evaluated before \<open>setTimeout\<close> is entered; calling
  what is not a function throws a TypeError.
\<close>

definition start_catch ::
  "start_host \<Rightarrow> nat \<Rightarrow> nat \<Rightarrow> js_error \<Rightarrow> plugin \<Rightarrow> plugin \<times> js_error option" where
  "start_catch h attempt maxAttempts err s =
     (let s1 = s\<lparr>logs := logs s @ [TopLevelError err]\<rparr>
      in case toastEnable_catch h of
           Inl e \<Rightarrow> (s1, Some e)
         | Inr enableToasts \<Rightarrow>
             if attempt < maxAttempts then
               (let s2 = s1\<lparr>logs := logs s1 @ [TryingAgain attempt]\<rparr>
                in case (if enableToasts then open_toast h (ToastRetry attempt) s2
                         else (s2, None)) of
                     (s3, Some e) \<Rightarrow> (s3, Some e)
                   | (s3, None) \<Rightarrow>
                       (case Dislate_method ''initializeActionSheet'' of
                          None \<Rightarrow> (s3, Some TypeError)
                        | Some m \<Rightarrow>
                            (s3\<lparr>timers := timers s3 @ [(m, attempt * 10000)]\<rparr>, None)))
             else
               (let s2 = s1\<lparr>logs := logs s1 @ [GivingUp]\<rparr>
                in if enableToasts then open_toast h ToastGivingUp s2 else (s2, None)))"

definition onStart :: "start_host \<Rightarrow> plugin \<Rightarrow> plugin \<times> js_error option" where
  "onStart h s =
     (let s0 = s\<lparr>commands := [DebugCommand, TranslateCommand]\<rparr>;
          attempt0 = 0;
          maxAttempts = 3;
          attempt = attempt0 + 1
      in case start_try h attempt maxAttempts s0 of
           (s1, None) \<Rightarrow> (s1, None)
         | (s1, Some err) \<Rightarrow> start_catch h attempt maxAttempts err s1)"

definition onStop :: "plugin \<Rightarrow> plugin" where
  "onStop s = s\<lparr>patches := [], commands := []\<rparr>"

section \<open>Well-formed text and sessions\<close>

text \<open>A string is well formed when every surrogate code unit is part of a pair.\<close>

fun wellFormed :: "jsstring \<Rightarrow> bool" where
  "wellFormed [] = True"
| "wellFormed [c] = (\<not> isLeadSurrogate c \<and> \<not> isTrailSurrogate c)"
| "wellFormed (c # d # ds) =
     (if isLeadSurrogate c then isTrailSurrogate d \<and> wellFormed ds
      else \<not> isTrailSurrogate c \<and> wellFormed (d # ds))"

text \<open>The object that \<open>cachedData\<close> starts with.\<close>

definition sentinel :: cached where
  "sentinel = \<lparr>obj_ref = 0, obj_key = ascii ''invalid_id'',
       obj_value = Some (ascii ''rosie sucks'')\<rparr>"

text \<open>
  The states a session of the plugin can be in. The plugin is loaded; the host starts
  and stops it; a row that \<open>patchActionSheet\<close> built and inserted in some state of the
  session is pressed, and the callback of the press, when it runs to its end, gives the
  next state. The parameter \<open>ids\<close> holds the ids of the messages on which the menu is
  opened in the session. The row need not have been built in the state in which its
  callback runs, and the host may have changed in between.
\<close>

inductive session :: "jsstring option set \<Rightarrow> plugin \<Rightarrow> bool" for ids where
  loaded: "session ids initial_plugin"
| started: "session ids s \<Longrightarrow> session ids (fst (onStart h s))"
| stopped: "session ids s \<Longrightarrow> session ids (onStop s)"
| pressed:
    "session ids s0 \<Longrightarrow> session ids s \<Longrightarrow>
     outcome (patchActionSheet h (cachedData s0) arg res) = Ended \<Longrightarrow>
     mainElement h (cachedData s0) arg = FormRow k t ic p \<Longrightarrow>
     messageId_of h arg \<in> ids \<Longrightarrow>
     press h' Translate_string p s = Inr s' \<Longrightarrow>
     session ids s'"

text \<open>
  What a session keeps true of the cache when no menu is opened on a message with the
  id of the sentinel: the sentinel is there, it alone has reference 0, and new objects
  get references from 1 on.
\<close>

definition cache_inv :: "plugin \<Rightarrow> bool" where
  "cache_inv s \<longleftrightarrow>
     sentinel \<in> set (cachedData s)
     \<and> (\<forall>e\<in>set (cachedData s). obj_ref e = 0 \<longrightarrow> e = sentinel)
     \<and> 0 < next_ref s"

text \<open>
  A history of the plugin: its state together with the press handlers of the rows built
  so far. A row is built when the menu is opened in the current state and
  \<open>patchActionSheet\<close> inserts it; any row built so far can be pressed, also one built
  before the cache changed.
\<close>

inductive history :: "plugin \<Rightarrow> handler set \<Rightarrow> bool" where
  history_loaded: "history initial_plugin {}"
| history_started: "history s H \<Longrightarrow> history (fst (onStart h s)) H"
| history_stopped: "history s H \<Longrightarrow> history (onStop s) H"
| history_opened:
    "history s H \<Longrightarrow>
     outcome (patchActionSheet h (cachedData s) arg res) = Ended \<Longrightarrow>
     mainElement h (cachedData s) arg = FormRow k t ic p \<Longrightarrow>
     history s (insert p H)"
| history_pressed:
    "history s H \<Longrightarrow> p \<in> H \<Longrightarrow>
     press h Translate_string p s = Inr s' \<Longrightarrow>
     history s' H"

text \<open>
  What a history keeps true of the objects in the cache and in the handlers: their
  references are below the next free one, a reference names one object, and a row in
  the state \<open>Revert\<close> holds an object keyed by the id of its message.
\<close>

definition cached_objects :: "plugin \<Rightarrow> handler set \<Rightarrow> cached set" where
  "cached_objects s H =
     set (cachedData s) \<union> {x. \<exists>p\<in>H. existingCachedObject p = Some x}"

definition history_inv :: "plugin \<Rightarrow> handler set \<Rightarrow> bool" where
  "history_inv s H \<longleftrightarrow>
     (\<forall>x\<in>cached_objects s H. obj_ref x < next_ref s)
     \<and> (\<forall>x\<in>cached_objects s H. \<forall>y\<in>cached_objects s H. obj_ref x = obj_ref y \<longrightarrow> x = y)
     \<and> (\<forall>p\<in>H. translateType p = Revert \<longrightarrow>
           (\<exists>x. existingCachedObject p = Some x \<and> Some (obj_key x) = messageId p))"

section \<open>Example inputs\<close>

text \<open>
  A provider that answers every request with the same response, and a network that is
  down. The example of the specification: the translation
  of \<open>rosie is really tall\<close> into Japanese, as UTF-16 code units, in the JSON body the
  provider sends, and the URL of the request for it.
\<close>

definition always :: "response \<Rightarrow> request \<Rightarrow> js_error + response" where
  "always res req = Inr res"

definition offline :: "request \<Rightarrow> js_error + response" where
  "offline req = Inl FetchFailed"


definition example_body :: "jsstring \<Rightarrow> jsval" where
  "example_body t = JObj [(ascii ''translations'', JArr [JObj [(ascii ''text'', JStr t)]])]"

definition example_response :: "jsstring \<Rightarrow> response" where
  "example_response t = \<lparr>status = 200, json = Inr (example_body t)\<rparr>"

definition example_url :: jsstring where
  "example_url =
     ascii ''https://api-free.deepl.com/v2/translate?target_lang=ja&text=rosie%20is%20really%20tall''"

text \<open>
  A host whose message store holds one message, with id \<open>i\<close> and content \<open>c\<close>, in a
  channel of a guild; the target language is \<open>japanese\<close>, written in full in the tag.
  \<open>Translate.string\<close> resolves with a given text.
\<close>

definition example_message :: "jsstring \<Rightarrow> jsstring \<Rightarrow> message" where
  "example_message i c =
     \<lparr>message_id = Some i, channel_id = Some (ascii ''7''), content = Some c,
      guild_id = None\<rparr>"

definition example_host :: "jsstring \<Rightarrow> jsstring \<Rightarrow> host" where
  "example_host i c =
     \<lparr>externalPlugins = [ascii ''dislate''], dislate = ascii ''dislate'',
      MESSAGE_ACTION_REPLY = Some (ascii ''Reply''),
      EDIT_MESSAGE = Some (ascii ''Edit Message''),
      getMessage = (\<lambda>ch m. Some (example_message i c)),
      getChannel = (\<lambda>ch. Some \<lparr>channel_guild_id = Some (ascii ''9'')\<rparr>),
      DislateLangFrom = ascii ''detect'', DislateLangTo = ascii ''japanese'',
      DislateLangAbbr = False,
      LanguageNames = (\<lambda>n. None),
      Format_string = (\<lambda>n. n),
      toUpperCase = (\<lambda>n. n)\<rparr>"

definition resolves :: "jsstring \<Rightarrow> translate_call \<Rightarrow> js_error + jsstring" where
  "resolves r call = Inr r"

text \<open>
  A render result in which the search visits two arrays, the second being the button
  list with a reply button and a copy button; and the same after the row for the message
  with id \<open>1\<close> and content \<open>hello\<close> was inserted, behind the reply button.
\<close>

definition example_render :: render where
  "example_render =
     \<lparr>has_props = True,
      arrays = [[Button None None],
                [Button (Some (ascii ''reply'')) (Some (ascii ''Reply'')),
                 Button (Some (ascii ''copy'')) (Some (ascii ''Copy Text''))]]\<rparr>"

definition null_render :: render where
  "null_render =
     \<lparr>has_props = True,
      arrays = [[Button (Some (ascii ''reply'')) (Some (ascii ''Reply'')),
                 Nullish,
                 Button (Some (ascii ''copy'')) (Some (ascii ''Copy Text''))]]\<rparr>"

definition example_handler :: handler where
  "example_handler =
     \<lparr>translateType = Translate,
      originalMessage = Some (example_message (ascii ''1'') (ascii ''hello'')),
      existingCachedObject = None, messageId = Some (ascii ''1''),
      messageContent = Some (ascii ''hello'')\<rparr>"

definition example_patched :: render where
  "example_patched =
     \<lparr>has_props = True,
      arrays = [[Button None None],
                [Button (Some (ascii ''reply'')) (Some (ascii ''Reply'')),
                 FormRow (ascii ''dislate'') Translate Icons_Translate example_handler,
                 Button (Some (ascii ''copy'')) (Some (ascii ''Copy Text''))]]\<rparr>"

text \<open>The state after that row was pressed and the translation resolved with \<open>bonjour\<close>.\<close>

definition example_translated :: plugin where
  "example_translated =
     \<lparr>cachedData =
        [\<lparr>obj_ref = 1, obj_key = ascii ''1'', obj_value = Some (ascii ''hello'')\<rparr>,
         sentinel],
      next_ref = 2, commands = [], patches = [],
      dispatched =
        [\<lparr>event_message =
            \<lparr>message_id = Some (ascii ''1''), channel_id = Some (ascii ''7''),
             content = Some (ascii ''bonjour `[japanese]`''),
             guild_id = Some (ascii ''9'')\<rparr>,
          log_edit = False\<rparr>],
      toasts = [ModifiedTo (ascii ''japanese'')], logs = [], timers = []\<rparr>"

text \<open>
  The row built for the same message once it is cached, the render result with that row
  inserted, and the state after that row was pressed: the entry is gone, and the content
  dispatched is \<open>hello\<close> and a space.
\<close>

definition example_revert_handler :: handler where
  "example_revert_handler =
     \<lparr>translateType = Revert,
      originalMessage = Some (example_message (ascii ''1'') (ascii ''hello'')),
      existingCachedObject =
        Some \<lparr>obj_ref = 1, obj_key = ascii ''1'', obj_value = Some (ascii ''hello'')\<rparr>,
      messageId = Some (ascii ''1''),
      messageContent = Some (ascii ''hello'')\<rparr>"

definition example_patched_revert :: render where
  "example_patched_revert =
     \<lparr>has_props = True,
      arrays = [[Button None None],
                [Button (Some (ascii ''reply'')) (Some (ascii ''Reply'')),
                 FormRow (ascii ''dislate'') Revert Icons_Revert example_revert_handler,
                 Button (Some (ascii ''copy'')) (Some (ascii ''Copy Text''))]]\<rparr>"

definition example_reverted :: plugin where
  "example_reverted =
     \<lparr>cachedData = [sentinel],
      next_ref = 2, commands = [], patches = [],
      dispatched =
        [\<lparr>event_message =
            \<lparr>message_id = Some (ascii ''1''), channel_id = Some (ascii ''7''),
             content = Some (ascii ''bonjour `[japanese]`''),
             guild_id = Some (ascii ''9'')\<rparr>,
          log_edit = False\<rparr>,
         \<lparr>event_message =
            \<lparr>message_id = Some (ascii ''1''), channel_id = Some (ascii ''7''),
             content = Some (ascii ''hello ''),
             guild_id = Some (ascii ''9'')\<rparr>,
          log_edit = False\<rparr>],
      toasts = [ModifiedTo (ascii ''japanese''), Reverted], logs = [], timers = []\<rparr>"

text \<open>
  Opening the menu on the message of the example host in a state, and pressing the row
  that \<open>patchActionSheet\<close> builds for it there; and the contents of the events
  dispatched so far.
\<close>

fun onPress_of :: "element \<Rightarrow> handler option" where
  "onPress_of Nullish = None"
| "onPress_of (Button k m) = None"
| "onPress_of (FormRow k l i p) = Some p"

definition open_and_press ::
  "jsstring \<Rightarrow> jsstring \<Rightarrow> jsstring \<Rightarrow> plugin \<Rightarrow> js_error + plugin" where
  "open_and_press i c r s =
     (case onPress_of (mainElement (example_host i c) (cachedData s)
                         (Some (example_message i c))) of
        None \<Rightarrow> Inl TypeError
      | Some p \<Rightarrow> press (example_host i c) (resolves r) p s)"

definition contents :: "plugin \<Rightarrow> jsstring option list" where
  "contents s = map (\<lambda>e. content (event_message e)) (dispatched s)"

text \<open>
  A host in which reading the setting \<open>toastEnable\<close> throws in the \<open>try\<close> block of
  \<open>onStart\<close> and gives \<open>true\<close> in its \<open>catch\<close> block.
\<close>

definition failing_start_host :: start_host where
  "failing_start_host =
     \<lparr>toastEnable = Inl (Error ''settings unavailable''), toastEnable_catch = Inr True,
      wake = Inr (), Toasts_open = (\<lambda>t. Inr ()), install = Inr ActionSheetFor170\<rparr>"

section \<open>The translation client: properties\<close>

lemmas encode_simps =
  ascii_def uriUnescaped_def bind_def escaped_def utf8_def percent_def hexDigit_def
  isLeadSurrogate_def isTrailSurrogate_def surrogatePair_def

subsection \<open>\<open>encodeURIComponent\<close>\<close>

lemma uriUnescaped_ascii: "uriUnescaped c \<Longrightarrow> unat c < 0x80"
  unfolding uriUnescaped_def ascii_def by auto

lemma uriUnescaped_not_surrogate:
  "uriUnescaped c \<Longrightarrow> \<not> isLeadSurrogate c \<and> \<not> isTrailSurrogate c"
  using uriUnescaped_ascii [of c]
  by (auto simp: isLeadSurrogate_def isTrailSurrogate_def)

lemma lead_not_trail: "isLeadSurrogate c \<Longrightarrow> \<not> isTrailSurrogate c"
  by (auto simp: isLeadSurrogate_def isTrailSurrogate_def)

text \<open>The encoder returns exactly on well-formed text, and throws nothing but a URIError.\<close>

lemma encodeURIComponent_defined:
  "(\<exists>e. encodeURIComponent s = Inr e) \<longleftrightarrow> wellFormed s"
  by (induction s rule: encodeURIComponent.induct)
     (auto simp: bind_def uriUnescaped_not_surrogate lead_not_trail split: sum.splits)

lemma encodeURIComponent_error:
  "encodeURIComponent s = Inl e \<Longrightarrow> e = URIError"
  by (induction s arbitrary: e rule: encodeURIComponent.induct)
     (auto simp: bind_def split: sum.splits if_splits)

text \<open>The encoded text consists of unreserved characters and \<open>%\<close> only.\<close>

lemma hexDigit_unescaped: "uriUnescaped (hexDigit n)"
proof -
  have "hexDigit n \<in> set (ascii ''0123456789ABCDEF'')"
    unfolding hexDigit_def by (rule nth_mem) (simp add: ascii_def)
  then show ?thesis
    unfolding uriUnescaped_def ascii_def by auto
qed

lemma percent_chars: "c \<in> set (percent b) \<Longrightarrow> uriUnescaped c \<or> c = 0x25"
  by (auto simp: percent_def hexDigit_unescaped)

lemma escaped_chars: "c \<in> set (escaped cp) \<Longrightarrow> uriUnescaped c \<or> c = 0x25"
  unfolding escaped_def using percent_chars by auto

lemma encodeURIComponent_chars:
  "encodeURIComponent s = Inr e \<Longrightarrow> \<forall>c\<in>set e. uriUnescaped c \<or> c = 0x25"
  by (induction s arbitrary: e rule: encodeURIComponent.induct)
     (auto simp: bind_def dest: escaped_chars split: sum.splits if_splits)

lemma example_encoded:
  "encodeURIComponent (ascii ''rosie is really tall'')
     = Inr (ascii ''rosie%20is%20really%20tall'')"
  by (simp add: encode_simps)

subsection \<open>\<open>translate\<close>\<close>

text \<open>Once the request is sent, the result is what \<open>engine.parse\<close> makes of the answer.\<close>

lemma translate_sent:
  "fst (translate key net text fromLang toLang) = [req] \<Longrightarrow>
   snd (translate key net text fromLang toLang) = bind (net req) engine_parse"
  by (auto simp: translate_def Let_def split: sum.splits)

lemma example_request:
  "fst (translate (Some (ascii ''key'')) net (ascii ''rosie is really tall'')
          (ascii ''null'') (ascii ''ja''))
   = [translate_request (Some (ascii ''key'')) example_url]"
  by (simp add: translate_def engine_fetch_def example_encoded bind_def base_def Let_def
        example_url_def)
     (simp add: ascii_def)

lemma example_answered:
  "always (example_response t) (translate_request (Some (ascii ''key'')) example_url)
     = Inr (example_response t)"
  by (simp add: always_def)

lemma example_json: "json (example_response t) = Inr (example_body t)"
  by (simp add: example_response_def)

lemma example_text: "translations_0_text (example_body t) = Inr (JStr t)"
  by (simp add: translations_0_text_def example_body_def bind_def ascii_def)



text \<open>
  Claim C2. When the request that \<open>translate\<close> sent is answered, the body of the answer
  is JSON, and \<open>translations[0].text\<close> in it is falsy (the empty string, or \<open>undefined\<close>
  where the field is missing, or \<open>null\<close>, \<open>false\<close>, zero), then \<open>translate\<close> does not
  return a value: it fails with the error \<open>Invalid Translation!\<close>.
\<close>

theorem translate_fails_on_falsy_text:
  assumes "fst (translate key net text fromLang toLang) = [req]"
    and "net req = Inr res"
    and "json res = Inr body"
    and "translations_0_text body = Inr t"
    and "\<not> truthy t"
  shows "snd (translate key net text fromLang toLang) = Inl (Error ''Invalid Translation!'')"
  using assms by (simp add: translate_sent engine_parse_def bind_def)

text \<open>The example of the specification: the provider answers with an empty text.\<close>

theorem translate_fails_on_falsy_text_witness:
  "fst (translate (Some (ascii ''key'')) (always (example_response []))
          (ascii ''rosie is really tall'') (ascii ''null'') (ascii ''ja''))
     = [translate_request (Some (ascii ''key'')) example_url]
   \<and> always (example_response []) (translate_request (Some (ascii ''key'')) example_url)
       = Inr (example_response [])
   \<and> json (example_response []) = Inr (example_body [])
   \<and> translations_0_text (example_body []) = Inr (JStr [])
   \<and> \<not> truthy (JStr [])
   \<and> snd (translate (Some (ascii ''key'')) (always (example_response []))
          (ascii ''rosie is really tall'') (ascii ''null'') (ascii ''ja''))
       = Inl (Error ''Invalid Translation!'')"
proof -
  note sent = example_request [of "always (example_response [])"]
  note answered = example_answered [of "[]"]
  note body = example_json [of "[]"]
  note field = example_text [of "[]"]
  have empty: "\<not> truthy (JStr [])"
    by simp
  from sent answered body field empty
    translate_fails_on_falsy_text [OF sent answered body field empty]
  show ?thesis by (intro conjI)
qed

text \<open>
  Where the field is missing its value is \<open>undefined\<close>, which is falsy; where
  \<open>translations\<close> or its first entry is missing, reading the field throws a TypeError,
  and \<open>translate\<close> fails with it.
\<close>

lemma missing_text:
  "translations_0_text (JObj [(ascii ''translations'', JArr [JObj []])]) = Inr JUndefined"
  "translations_0_text (JObj [(ascii ''translations'', JArr [])]) = Inl TypeError"
  "translations_0_text (JObj []) = Inl TypeError"
  by (simp_all add: translations_0_text_def bind_def ascii_def)

lemma translate_fails_without_translation:
  assumes "fst (translate key net text fromLang toLang) = [req]"
    and "net req = Inr res"
    and "json res = Inr body"
    and "translations_0_text body = Inl e"
  shows "snd (translate key net text fromLang toLang) = Inl e"
  using assms by (simp add: translate_sent engine_parse_def bind_def)

text \<open>
  Claim C5, as stated, fails twice. The source code \<open>detect\<close> is not the sentinel: it is
  sent as \<open>source_lang=detect\<close>. And for a text with a surrogate code unit outside a
  pair, \<open>encodeURIComponent\<close> throws and no request is sent.
\<close>

theorem translate_detect_counterexample:
  "fst (translate (Some (ascii ''key'')) offline (ascii ''hi'') (ascii ''detect'') (ascii ''ja''))
     = [\<lparr>url = ascii
           ''https://api-free.deepl.com/v2/translate?target_lang=ja&source_lang=detect&text=hi'',
         method = POST,
         headers = [(''Authorization'', ascii ''DeepL-Auth-Key key'')]\<rparr>]
   \<and> fst (translate (Some (ascii ''key'')) offline [0xD83D] (ascii ''en'') (ascii ''ja'')) = []"
  by (simp add: translate_def engine_fetch_def translate_request_def base_def template_def
        Let_def encode_simps)

text \<open>
  Claim C5, amended. For every well-formed text (every surrogate code unit in a pair),
  source code and target code, \<open>translate\<close> sends exactly one request: a POST to the
  endpoint with the query parameters \<open>target_lang\<close>, \<open>source_lang\<close> and \<open>text\<close>, in this
  order, the text encoded by \<open>encodeURIComponent\<close> and \<open>source_lang\<close> left out exactly
  when the source code is the string \<open>null\<close>, with the header
  \<open>Authorization: DeepL-Auth-Key\<close> followed by the key. For a text that is not well
  formed, no request is sent and \<open>translate\<close> fails with a URIError.
\<close>

theorem translate_one_post:
  "(wellFormed text \<longrightarrow>
      (\<exists>encoded. encodeURIComponent text = Inr encoded
         \<and> fst (translate key net text fromLang toLang) =
             [\<lparr>url = base @ ascii ''?target_lang='' @ toLang
                      @ (if fromLang = ascii ''null'' then []
                         else ascii ''&source_lang='' @ fromLang)
                      @ ascii ''&text='' @ encoded,
                method = POST,
                headers = [(''Authorization'',
                            ascii ''DeepL-Auth-Key '' @ template key)]\<rparr>]))
   \<and> (\<not> wellFormed text \<longrightarrow>
        translate key net text fromLang toLang = ([], Inl URIError))"
proof (cases "encodeURIComponent text")
  case (Inl e)
  then have "\<not> wellFormed text"
    using encodeURIComponent_defined [of "text"] by simp
  moreover have "e = URIError"
    using Inl by (rule encodeURIComponent_error)
  ultimately show ?thesis
    using Inl by (simp add: translate_def engine_fetch_def bind_def)
next
  case (Inr encoded)
  then have "wellFormed text"
    using encodeURIComponent_defined [of "text"] by auto
  then show ?thesis
    using Inr
    by (simp add: translate_def engine_fetch_def bind_def translate_request_def Let_def)
qed

theorem translate_one_post_witness:
  "wellFormed (ascii ''rosie is really tall'')
   \<and> (\<exists>encoded. encodeURIComponent (ascii ''rosie is really tall'') = Inr encoded
         \<and> fst (translate (Some (ascii ''key'')) offline (ascii ''rosie is really tall'')
                  (ascii ''null'') (ascii ''ja'')) =
             [\<lparr>url = base @ ascii ''?target_lang='' @ ascii ''ja''
                      @ (if ascii ''null'' = ascii ''null'' then []
                         else ascii ''&source_lang='' @ ascii ''null'')
                      @ ascii ''&text='' @ encoded,
                method = POST,
                headers = [(''Authorization'',
                            ascii ''DeepL-Auth-Key '' @ template (Some (ascii ''key'')))]\<rparr>])
   \<and> \<not> wellFormed [0xD83D]
   \<and> translate (Some (ascii ''key'')) offline [0xD83D] (ascii ''en'') (ascii ''ja'')
       = ([], Inl URIError)"
proof -
  have wf: "wellFormed (ascii ''rosie is really tall'')"
    using encodeURIComponent_defined example_encoded by blast
  have ill: "\<not> wellFormed [0xD83D]"
    by (simp add: isLeadSurrogate_def)
  have one: "\<exists>encoded. encodeURIComponent (ascii ''rosie is really tall'') = Inr encoded
         \<and> fst (translate (Some (ascii ''key'')) offline (ascii ''rosie is really tall'')
                  (ascii ''null'') (ascii ''ja'')) =
             [\<lparr>url = base @ ascii ''?target_lang='' @ ascii ''ja''
                      @ (if ascii ''null'' = ascii ''null'' then []
                         else ascii ''&source_lang='' @ ascii ''null'')
                      @ ascii ''&text='' @ encoded,
                method = POST,
                headers = [(''Authorization'',
                            ascii ''DeepL-Auth-Key '' @ template (Some (ascii ''key'')))]\<rparr>]"
    by (rule translate_one_post [THEN conjunct1, THEN mp, OF wf])
  have none: "translate (Some (ascii ''key'')) offline [0xD83D] (ascii ''en'') (ascii ''ja'')
       = ([], Inl URIError)"
    by (rule translate_one_post [THEN conjunct2, THEN mp, OF ill])
  from wf one ill none show ?thesis by (intro conjI)
qed

section \<open>The plugin: properties\<close>

subsection \<open>The action sheet\<close>

text \<open>
  The search returns the position of the first locatable array, and nothing exactly when
  no array visited is locatable. An array is locatable when one of its entries has a
  key and a message.
\<close>

lemma locatable_iff:
  "locatable r \<longleftrightarrow> (\<exists>e\<in>set r. item_key e \<noteq> None \<and> props_message e \<noteq> None)"
  by (auto simp: locatable_def find_None_iff)

lemma findInReactTree_Some:
  "findInReactTree rs = Some i \<longleftrightarrow>
     i < length rs \<and> locatable (rs ! i) \<and> (\<forall>j<i. \<not> locatable (rs ! j))"
proof (induction rs arbitrary: i)
  case Nil
  show ?case by simp
next
  case (Cons r rs)
  show ?case
  proof (cases "locatable r")
    case True
    then show ?thesis by (cases i) auto
  next
    case False
    show ?thesis
    proof (cases i)
      case 0
      with False show ?thesis by simp
    next
      case (Suc k)
      have "(\<forall>j<Suc k. \<not> locatable ((r # rs) ! j)) \<longleftrightarrow> (\<forall>j<k. \<not> locatable (rs ! j))"
        using False by (auto simp: less_Suc_eq_0_disj)
      with Suc False Cons.IH [of k] show ?thesis by auto
    qed
  qed
qed

lemma findInReactTree_None:
  "findInReactTree rs = None \<longleftrightarrow> (\<forall>r\<in>set rs. \<not> locatable r)"
  by (induction rs) auto

text \<open>On a list with no \<open>null\<close> or \<open>undefined\<close> entry the offset loops do not throw.\<close>

lemma array_find_key_is:
  "Nullish \<notin> set xs \<Longrightarrow>
   array_find (key_is own index) xs =
     Inr (List.find (\<lambda>item. item_key item \<noteq> Some own \<and> item_key item = Some index) xs)"
  by (induction xs) (auto simp: key_is_def bind_def split: element.splits)

lemma array_find_message_is:
  "Nullish \<notin> set xs \<Longrightarrow>
   array_find (message_is msg) xs = Inr (List.find (\<lambda>item. props_message item = msg) xs)"
  by (induction xs) (auto simp: message_is_def bind_def split: element.splits)

lemma count_plugins_total:
  "Nullish \<notin> set xs \<Longrightarrow> \<exists>n. count_plugins h xs ps offset = Inr n"
  by (induction ps arbitrary: offset) (simp_all add: array_find_key_is bind_def)

lemma buttonOffset_total:
  assumes "Nullish \<notin> set xs"
  shows "\<exists>n. buttonOffset h xs = Inr n"
proof -
  obtain k where "count_plugins h xs (externalPlugins h) 0 = Inr k"
    using count_plugins_total [OF assms] by blast
  then show ?thesis
    by (simp add: buttonOffset_def bind_def array_find_message_is [OF assms])
qed

text \<open>A \<open>null\<close> entry that a search reaches makes the search throw.\<close>

lemma array_find_message_is_Nullish:
  "array_find (message_is msg) (Nullish # xs) = Inl TypeError"
  by (simp add: message_is_def bind_def)

lemma splice_insert_keeps:
  "splice_insert start x xs =
     take (min start (length xs)) xs @ x # drop (min start (length xs)) xs"
  by (simp add: splice_insert_def Let_def)

text \<open>The five ways through \<open>patchActionSheet\<close>.\<close>

lemma patch_no_props:
  "\<not> has_props res \<Longrightarrow>
   patchActionSheet h cache arg res =
     \<lparr>outcome = Returned res, res_after = res, logged = [NoProps], unpatched = True\<rparr>"
  by (simp add: patchActionSheet_def)

lemma patch_no_location:
  "has_props res \<Longrightarrow> findInReactTree (arrays res) = None \<Longrightarrow>
   patchActionSheet h cache arg res =
     \<lparr>outcome = Returned res, res_after = res, logged = [NoFinalLocation],
      unpatched = True\<rparr>"
  by (simp add: patchActionSheet_def)

lemma patch_throws:
  "has_props res \<Longrightarrow> findInReactTree (arrays res) = Some i \<Longrightarrow>
   buttonOffset h (arrays res ! i) = Inl e \<Longrightarrow>
   patchActionSheet h cache arg res =
     \<lparr>outcome = Thrown e, res_after = res, logged = [], unpatched = True\<rparr>"
  by (simp add: patchActionSheet_def Let_def)

lemma patch_no_content:
  "has_props res \<Longrightarrow> findInReactTree (arrays res) = Some i \<Longrightarrow>
   buttonOffset h (arrays res ! i) = Inr offset \<Longrightarrow> no_content h arg \<Longrightarrow>
   patchActionSheet h cache arg res =
     \<lparr>outcome = Returned res, res_after = res, logged = [NoContent], unpatched = True\<rparr>"
  by (simp add: patchActionSheet_def Let_def)

lemma patch_inserts:
  "has_props res \<Longrightarrow> findInReactTree (arrays res) = Some i \<Longrightarrow>
   buttonOffset h (arrays res ! i) = Inr offset \<Longrightarrow> \<not> no_content h arg \<Longrightarrow>
   patchActionSheet h cache arg res =
     \<lparr>outcome = Ended,
      res_after = res\<lparr>arrays := (arrays res)
        [i := splice_insert offset (mainElement h cache arg) (arrays res ! i)]\<rparr>,
      logged = [], unpatched = True\<rparr>"
  by (simp add: patchActionSheet_def Let_def)

lemma outcome_Ended:
  assumes "outcome (patchActionSheet h cache arg res) = Ended"
  shows "has_props res \<and> \<not> no_content h arg
         \<and> (\<exists>i offset. findInReactTree (arrays res) = Some i
               \<and> buttonOffset h (arrays res ! i) = Inr offset)"
proof (cases "has_props res")
  case False
  with assms show ?thesis by (simp add: patch_no_props)
next
  case True
  show ?thesis
  proof (cases "findInReactTree (arrays res)")
    case None
    with True assms show ?thesis by (simp add: patch_no_location)
  next
    case (Some i)
    show ?thesis
    proof (cases "buttonOffset h (arrays res ! i)")
      case (Inl e)
      with assms show ?thesis
        using patch_throws [OF True Some Inl, of cache arg] by simp
    next
      case (Inr offset)
      have "\<not> no_content h arg"
      proof
        assume "no_content h arg"
        from patch_no_content [OF True Some Inr this, of cache] assms show False
          by simp
      qed
      with True Some Inr show ?thesis by simp
    qed
  qed
qed

text \<open>The row that is built: its key, and how label, icon and handler go together.\<close>

lemma find_cached_None:
  "find_cached cache mid = None \<longleftrightarrow> (\<forall>e\<in>set cache. Some (obj_key e) \<noteq> mid)"
  by (auto simp: find_cached_def find_None_iff)

lemma find_cached_Some:
  "find_cached cache mid = Some e \<Longrightarrow> e \<in> set cache \<and> Some (obj_key e) = mid"
  by (auto simp: find_cached_def find_Some_iff)

lemma mainElement_label:
  "\<exists>t ic p. mainElement h cache arg = FormRow (dislate h) t ic p
     \<and> translateType p = t
     \<and> (t = Revert \<longleftrightarrow> find_cached cache (messageId_of h arg) \<noteq> None)
     \<and> (t = Translate \<longleftrightarrow> find_cached cache (messageId_of h arg) = None)
     \<and> (ic = Icons_Revert \<longleftrightarrow> t = Revert)
     \<and> (ic = Icons_Translate \<longleftrightarrow> t = Translate)"
  by (simp add: mainElement_def Let_def)

text \<open>
  Claim C9, on the code. The render result has \<open>props\<close>, and the search visits one
  array: a reply button, \<open>null\<close> and a copy button. The filter of the search reads the
  entries with optional chaining, so this list is located; the first offset loop then
  reads \<open>item.key\<close> of the \<open>null\<close> entry with no such guard and throws a TypeError.
  The message has content, yet nothing is inserted, and the render result is not
  returned.
\<close>

theorem patchActionSheet_throws_on_null:
  "has_props null_render
   \<and> locatable (arrays null_render ! 0)
   \<and> patchActionSheet (example_host (ascii ''1'') (ascii ''hello'')) initial_cachedData
        (Some (example_message (ascii ''1'') (ascii ''hello''))) null_render
       = \<lparr>outcome = Thrown TypeError, res_after = null_render, logged = [],
          unpatched = True\<rparr>"
  by (simp add: null_render_def locatable_def patchActionSheet_def buttonOffset_def
        key_is_def message_is_def example_host_def bind_def Let_def)

text \<open>
  Where the located list has no such entry the function does what is expected of it.
  Let the render result have \<open>props\<close>, and let the array at position
  \<open>i\<close> be the first locatable array that the search visits, with no \<open>null\<close> or
  \<open>undefined\<close> entry. When the message has content, \<open>patchActionSheet\<close> puts exactly one
  new entry, a row with the plugin's key labelled \<open>Translate\<close> or \<open>Revert\<close>, into that
  list: the list becomes its first \<open>n\<close> entries, the new entry, and its remaining
  entries, so every entry that was there is still there, in the same order; every other
  array is as it was. When the message has no content, the render result is returned and
  is unchanged. It is also returned unchanged when it has no \<open>props\<close>, and when none of
  the arrays visited is locatable.
\<close>

lemma patchActionSheet_frame:
  "(has_props res \<and> i < length (arrays res) \<and> locatable (arrays res ! i)
      \<and> (\<forall>j<i. \<not> locatable (arrays res ! j)) \<and> Nullish \<notin> set (arrays res ! i)
      \<and> \<not> no_content h arg \<longrightarrow>
      outcome (patchActionSheet h cache arg res) = Ended
      \<and> (\<exists>n t ic p. n \<le> length (arrays res ! i)
            \<and> res_after (patchActionSheet h cache arg res) =
                res\<lparr>arrays := (arrays res)
                       [i := take n (arrays res ! i) @ FormRow (dislate h) t ic p
                               # drop n (arrays res ! i)]\<rparr>))
   \<and> (has_props res \<and> i < length (arrays res) \<and> locatable (arrays res ! i)
      \<and> (\<forall>j<i. \<not> locatable (arrays res ! j)) \<and> Nullish \<notin> set (arrays res ! i)
      \<and> no_content h arg \<longrightarrow>
        outcome (patchActionSheet h cache arg res) = Returned res
        \<and> res_after (patchActionSheet h cache arg res) = res)
   \<and> (\<not> has_props res \<or> (\<forall>r\<in>set (arrays res). \<not> locatable r) \<longrightarrow>
        outcome (patchActionSheet h cache arg res) = Returned res
        \<and> res_after (patchActionSheet h cache arg res) = res)"
proof (intro conjI impI)
  assume a: "has_props res \<and> i < length (arrays res) \<and> locatable (arrays res ! i)
      \<and> (\<forall>j<i. \<not> locatable (arrays res ! j)) \<and> Nullish \<notin> set (arrays res ! i)
      \<and> \<not> no_content h arg"
  then have found: "findInReactTree (arrays res) = Some i"
    by (simp add: findInReactTree_Some)
  from a obtain offset where offset: "buttonOffset h (arrays res ! i) = Inr offset"
    using buttonOffset_total [of "arrays res ! i" h] by blast
  from a have hp: "has_props res" and content: "\<not> no_content h arg"
    by simp_all
  have p: "patchActionSheet h cache arg res =
     \<lparr>outcome = Ended,
      res_after = res\<lparr>arrays := (arrays res)
        [i := splice_insert offset (mainElement h cache arg) (arrays res ! i)]\<rparr>,
      logged = [], unpatched = True\<rparr>"
    by (rule patch_inserts [OF hp found offset content])
  then show "outcome (patchActionSheet h cache arg res) = Ended"
    by simp
  obtain t ic pr where row: "mainElement h cache arg = FormRow (dislate h) t ic pr"
    using mainElement_label [of h cache arg] by (elim exE conjE)
  define n where "n = min offset (length (arrays res ! i))"
  have "n \<le> length (arrays res ! i)"
    by (simp add: n_def)
  moreover have "res_after (patchActionSheet h cache arg res) =
       res\<lparr>arrays := (arrays res)
              [i := take n (arrays res ! i) @ FormRow (dislate h) t ic pr
                      # drop n (arrays res ! i)]\<rparr>"
    by (simp add: p splice_insert_keeps n_def row)
  ultimately show "\<exists>n t ic p. n \<le> length (arrays res ! i)
            \<and> res_after (patchActionSheet h cache arg res) =
                res\<lparr>arrays := (arrays res)
                       [i := take n (arrays res ! i) @ FormRow (dislate h) t ic p
                               # drop n (arrays res ! i)]\<rparr>"
    by (intro exI [of _ n] exI [of _ t] exI [of _ ic] exI [of _ pr] conjI)
next
  assume a: "has_props res \<and> i < length (arrays res) \<and> locatable (arrays res ! i)
      \<and> (\<forall>j<i. \<not> locatable (arrays res ! j)) \<and> Nullish \<notin> set (arrays res ! i)
      \<and> no_content h arg"
  then have found: "findInReactTree (arrays res) = Some i"
    by (simp add: findInReactTree_Some)
  from a obtain offset where offset: "buttonOffset h (arrays res ! i) = Inr offset"
    using buttonOffset_total [of "arrays res ! i" h] by blast
  from a have hp: "has_props res" and content: "no_content h arg"
    by simp_all
  have p: "patchActionSheet h cache arg res =
     \<lparr>outcome = Returned res, res_after = res, logged = [NoContent], unpatched = True\<rparr>"
    by (rule patch_no_content [OF hp found offset content])
  show "outcome (patchActionSheet h cache arg res) = Returned res"
    by (simp add: p)
  show "res_after (patchActionSheet h cache arg res) = res"
    by (simp add: p)
next
  assume a: "\<not> has_props res \<or> (\<forall>r\<in>set (arrays res). \<not> locatable r)"
  have p: "patchActionSheet h cache arg res =
     \<lparr>outcome = Returned res, res_after = res,
      logged = (if has_props res then [NoFinalLocation] else [NoProps]),
      unpatched = True\<rparr>"
  proof (cases "has_props res")
    case False
    then show ?thesis by (simp add: patch_no_props)
  next
    case True
    with a have "findInReactTree (arrays res) = None"
      by (simp add: findInReactTree_None)
    with True show ?thesis by (simp add: patch_no_location)
  qed
  show "outcome (patchActionSheet h cache arg res) = Returned res"
    by (simp add: p)
  show "res_after (patchActionSheet h cache arg res) = res"
    by (simp add: p)
qed

text \<open>
  The id of a displayed message \<open>m\<close> with id \<open>M\<close>, whose copy in the store, if there is
  one, carries the same id or none: \<open>messageId\<close> is \<open>M\<close>.
\<close>

lemma messageId_of_displayed:
  assumes "message_id m = Some M"
    and "\<forall>om. getMessage h (channel_id m) (Some M) = Some om \<longrightarrow> message_id om \<in> {None, Some M}"
  shows "messageId_of h (Some m) = Some M"
proof (cases "getMessage h (channel_id m) (Some M)")
  case None
  with assms(1) show ?thesis
    by (simp add: messageId_of_def originalMessage_of_def coalesce_def)
next
  case (Some om)
  with assms(2) have "message_id om = None \<or> message_id om = Some M"
    by auto
  with Some assms(1) show ?thesis
    by (auto simp: messageId_of_def originalMessage_of_def coalesce_def)
qed

text \<open>
  Where the copy in the store carries an id, that id is \<open>messageId\<close>; and a message
  with no id at all gets a row in the state \<open>Translate\<close>, whatever the cache holds.
\<close>

lemma messageId_of_stored:
  assumes "originalMessage_of h arg = Some om" and "message_id om = Some M"
  shows "messageId_of h arg = Some M"
  using assms by (simp add: messageId_of_def coalesce_def)

lemma mainElement_no_id:
  assumes "messageId_of h arg = None"
  shows "\<exists>ic p. mainElement h cache arg = FormRow (dislate h) Translate ic p"
  using assms by (simp add: mainElement_def find_cached_def find_None_iff Let_def)

text \<open>
  Claim C7. Let \<open>patchActionSheet\<close> be called for a displayed message with id \<open>M\<close> (its
  copy in the store, if any, carrying the same id), and let it insert its row. Then the
  row inserted into the located list is labelled \<open>Revert\<close> if the cache holds an object
  whose key is \<open>M\<close>, and \<open>Translate\<close> if it holds none; the icon and the state captured
  by the press handler are those of the label.
\<close>

theorem row_label_by_cache:
  assumes "outcome (patchActionSheet h cache (Some m) res) = Ended"
    and "message_id m = Some M"
    and "\<forall>om. getMessage h (channel_id m) (Some M) = Some om \<longrightarrow> message_id om \<in> {None, Some M}"
  shows "\<exists>i n ic p.
           i < length (arrays res) \<and> n \<le> length (arrays res ! i)
           \<and> locatable (arrays res ! i)
           \<and> arrays (res_after (patchActionSheet h cache (Some m) res)) ! i =
               take n (arrays res ! i)
               @ FormRow (dislate h)
                   (if \<exists>e\<in>set cache. obj_key e = M then Revert else Translate) ic p
               # drop n (arrays res ! i)
           \<and> translateType p = (if \<exists>e\<in>set cache. obj_key e = M then Revert else Translate)
           \<and> ic = (if \<exists>e\<in>set cache. obj_key e = M then Icons_Revert else Icons_Translate)"
proof -
  from outcome_Ended [OF assms(1)] obtain i offset where
    r: "has_props res" "\<not> no_content h (Some m)" "findInReactTree (arrays res) = Some i"
       "buttonOffset h (arrays res ! i) = Inr offset"
    by (elim exE conjE)
  from r(3) have len: "i < length (arrays res)" and loc: "locatable (arrays res ! i)"
    by (simp_all add: findInReactTree_Some)
  define n where "n = min offset (length (arrays res ! i))"
  have n: "n \<le> length (arrays res ! i)"
    by (simp add: n_def)
  have after: "arrays (res_after (patchActionSheet h cache (Some m) res)) ! i =
          take n (arrays res ! i) @ mainElement h cache (Some m) # drop n (arrays res ! i)"
    using len patch_inserts [OF r(1) r(3) r(4) r(2), of cache]
    by (simp add: splice_insert_keeps n_def)
  have mid: "messageId_of h (Some m) = Some M"
    using assms(2,3) by (rule messageId_of_displayed)
  have keyed: "find_cached cache (Some M) \<noteq> None \<longleftrightarrow> (\<exists>e\<in>set cache. obj_key e = M)"
    by (simp add: find_cached_None)
  obtain t ic p where m: "mainElement h cache (Some m) = FormRow (dislate h) t ic p"
    "translateType p = t"
    "t = Revert \<longleftrightarrow> find_cached cache (messageId_of h (Some m)) \<noteq> None"
    "t = Translate \<longleftrightarrow> find_cached cache (messageId_of h (Some m)) = None"
    "ic = Icons_Revert \<longleftrightarrow> t = Revert"
    "ic = Icons_Translate \<longleftrightarrow> t = Translate"
    using mainElement_label [of h cache "Some m"] by (elim exE conjE)
  from m(3) have "t = Revert \<longleftrightarrow> find_cached cache (Some M) \<noteq> None"
    by (simp only: mid)
  with keyed have rv: "t = Revert \<longleftrightarrow> (\<exists>e\<in>set cache. obj_key e = M)"
    by (simp only:)
  have t: "t = (if \<exists>e\<in>set cache. obj_key e = M then Revert else Translate)"
    using rv by (cases t) (simp_all split: if_splits)
  have ic: "ic = (if \<exists>e\<in>set cache. obj_key e = M then Icons_Revert else Icons_Translate)"
    using m(5,6) rv by (cases t) (simp_all split: if_splits)
  have "arrays (res_after (patchActionSheet h cache (Some m) res)) ! i =
               take n (arrays res ! i)
               @ FormRow (dislate h)
                   (if \<exists>e\<in>set cache. obj_key e = M then Revert else Translate) ic p
               # drop n (arrays res ! i)"
    using after m(1) t by simp
  moreover have "translateType p = (if \<exists>e\<in>set cache. obj_key e = M then Revert else Translate)"
    using m(2) t by simp
  ultimately show ?thesis
    using len n loc ic by (intro exI [of _ i] exI [of _ n] exI [of _ ic] exI [of _ p] conjI)
qed

subsection \<open>Pressing\<close>

lemma press_Translate:
  assumes "translateType p = Translate" and "press h Translate_string p s = Inr s'"
  shows "cachedData s' =
           \<lparr>obj_ref = next_ref s, obj_key = template (messageId p),
            obj_value = messageContent p\<rparr> # cachedData s
         \<and> next_ref s' = Suc (next_ref s)"
  using assms
  by (auto simp: press_def onTranslated_def bind_def cache_unshift_def Let_def
           split: sum.splits option.splits)

lemma press_Revert:
  assumes "translateType p = Revert" and "press h Translate_string p s = Inr s'"
  shows "cachedData s' = cache_override (existingCachedObject p) (cachedData s)
         \<and> next_ref s' = next_ref s"
  using assms
  by (auto simp: press_def onTranslated_def bind_def Let_def
           split: sum.splits option.splits)

lemma mainElement_handler:
  assumes "mainElement h cache arg = FormRow k t ic p"
  shows "translateType p = t \<and> messageId p = messageId_of h arg
         \<and> messageContent p = messageContent_of h arg
         \<and> existingCachedObject p = find_cached cache (messageId_of h arg)
         \<and> originalMessage p = originalMessage_of h arg
         \<and> (t = Revert \<longleftrightarrow> find_cached cache (messageId_of h arg) \<noteq> None)"
  using assms by (auto simp: mainElement_def Let_def split: if_splits)


text \<open>
  A press does succeed when the host cooperates: the message is in the store, the
  promise of \<open>Translate.string\<close> resolves, the channel is known and, where the tag is
  abbreviated, the target language is in the table. A row in the state \<open>Revert\<close> always
  holds the object it found.
\<close>

lemma press_Translate_succeeds:
  assumes "translateType p = Translate" and "originalMessage p = Some m"
    and "Translate_string \<lparr>call_text = content m, call_fromLanguage = DislateLangFrom h,
           call_toLanguage = DislateLangTo h, call_cancel = False\<rparr> = Inr r"
    and "getChannel h (channel_id m) = Some ch"
    and "DislateLangAbbr h \<Longrightarrow> LanguageNames h (DislateLangTo h) \<noteq> None"
  shows "\<exists>s'. press h Translate_string p s = Inr s'"
  using assms
  by (auto simp: press_def onPress_def onTranslated_def editContent_def languageTag_def
        bind_def Let_def split: option.splits)

lemma press_Revert_succeeds:
  assumes "mainElement h0 cache arg = FormRow k Revert ic p" and "originalMessage p = Some m"
    and "Translate_string \<lparr>call_text = content m, call_fromLanguage = DislateLangFrom h,
           call_toLanguage = DislateLangTo h, call_cancel = True\<rparr> = Inr r"
    and "getChannel h (channel_id m) = Some ch"
  shows "\<exists>s'. press h Translate_string p s = Inr s'"
proof -
  from mainElement_handler [OF assms(1)]
  have "translateType p = Revert" "existingCachedObject p \<noteq> None"
    by simp_all
  with assms(2-4) show ?thesis
    by (auto simp: press_def onPress_def onTranslated_def editContent_def
          bind_def Let_def split: option.splits)
qed

lemmas press_simps =
  mainElement_def messageId_of_def messageContent_of_def originalMessage_of_def
  find_cached_def coalesce_def press_def onPress_def onTranslated_def editContent_def
  languageTag_def cached_get_def template_def cache_unshift_def cache_override_def bind_def
  Let_def initial_plugin_def initial_cachedData_def no_content_def falsy_def

subsection \<open>The example: the message with id 1 and content \<open>hello\<close>\<close>

lemma example_mainElement:
  "mainElement (example_host (ascii ''1'') (ascii ''hello'')) initial_cachedData
     (Some (example_message (ascii ''1'') (ascii ''hello'')))
   = FormRow (ascii ''dislate'') Translate Icons_Translate example_handler"
  by (simp add: press_simps example_host_def example_message_def example_handler_def)
     (simp add: ascii_def)

lemma example_ids:
  "messageId_of (example_host (ascii ''1'') (ascii ''hello''))
     (Some (example_message (ascii ''1'') (ascii ''hello''))) = Some (ascii ''1'')"
  "messageContent_of (example_host (ascii ''1'') (ascii ''hello''))
     (Some (example_message (ascii ''1'') (ascii ''hello''))) = Some (ascii ''hello'')"
  "\<not> no_content (example_host (ascii ''1'') (ascii ''hello''))
     (Some (example_message (ascii ''1'') (ascii ''hello'')))"
  by (simp_all add: press_simps example_host_def example_message_def) (simp add: ascii_def)

lemma example_press:
  "press (example_host (ascii ''1'') (ascii ''hello'')) (resolves (ascii ''bonjour''))
     example_handler initial_plugin = Inr example_translated"
  by (simp add: press_simps example_host_def example_message_def example_handler_def
        example_translated_def resolves_def sentinel_def)
     (simp add: ascii_def)

lemma example_located:
  "findInReactTree (arrays example_render) = Some 1"
  by (simp add: example_render_def locatable_def)

lemma example_offset:
  "buttonOffset (example_host i c)
     [Button (Some (ascii ''reply'')) (Some (ascii ''Reply'')),
      Button (Some (ascii ''copy'')) (Some (ascii ''Copy Text''))] = Inr 1"
  by (simp add: buttonOffset_def key_is_def message_is_def example_host_def bind_def)
     (simp add: ascii_def)

lemma example_ended:
  "outcome (patchActionSheet (example_host (ascii ''1'') (ascii ''hello'')) initial_cachedData
     (Some (example_message (ascii ''1'') (ascii ''hello''))) example_render) = Ended"
  using example_ids(3) example_located
  by (simp add: patchActionSheet_def Let_def) (simp add: example_render_def example_offset)

lemma example_no_content:
  "no_content (example_host (ascii ''1'') []) (Some (example_message (ascii ''1'') []))"
  by (simp add: no_content_def falsy_def originalMessage_of_def example_host_def
        example_message_def)

lemma example_lists:
  "has_props example_render"
  "1 < length (arrays example_render)"
  "locatable (arrays example_render ! 1)"
  "\<not> locatable (arrays example_render ! 0)"
  "Nullish \<notin> set (arrays example_render ! 1)"
  by (simp_all add: example_render_def locatable_def)

lemma example_after:
  "res_after (patchActionSheet (example_host (ascii ''1'') (ascii ''hello'')) initial_cachedData
     (Some (example_message (ascii ''1'') (ascii ''hello''))) example_render) = example_patched"
  using example_ids(3) example_located
  by (simp add: patchActionSheet_def Let_def)
     (simp add: example_render_def example_offset example_mainElement splice_insert_def
        example_patched_def)

text \<open>The same message once it is cached: the state is \<open>example_translated\<close>.\<close>

lemma example_mainElement_revert:
  "mainElement (example_host (ascii ''1'') (ascii ''hello'')) (cachedData example_translated)
     (Some (example_message (ascii ''1'') (ascii ''hello'')))
   = FormRow (ascii ''dislate'') Revert Icons_Revert example_revert_handler"
  by (simp add: press_simps example_host_def example_message_def example_revert_handler_def
        example_translated_def)

lemma example_ended_revert:
  "outcome (patchActionSheet (example_host (ascii ''1'') (ascii ''hello''))
     (cachedData example_translated)
     (Some (example_message (ascii ''1'') (ascii ''hello''))) example_render) = Ended"
  using example_ids(3) example_located
  by (simp add: patchActionSheet_def Let_def) (simp add: example_render_def example_offset)

lemma example_after_revert:
  "res_after (patchActionSheet (example_host (ascii ''1'') (ascii ''hello''))
     (cachedData example_translated)
     (Some (example_message (ascii ''1'') (ascii ''hello''))) example_render)
   = example_patched_revert"
  using example_ids(3) example_located
  by (simp add: patchActionSheet_def Let_def)
     (simp add: example_render_def example_offset example_mainElement_revert splice_insert_def
        example_patched_revert_def)

lemma example_press_revert:
  "press (example_host (ascii ''1'') (ascii ''hello'')) (resolves (ascii ''hello''))
     example_revert_handler example_translated = Inr example_reverted"
  by (simp add: press_simps example_host_def example_message_def example_revert_handler_def
        example_translated_def example_reverted_def resolves_def sentinel_def)
     (simp add: ascii_def)

lemma patchActionSheet_frame_example:
  "(has_props example_render \<and> 1 < length (arrays example_render)
      \<and> locatable (arrays example_render ! 1) \<and> \<not> locatable (arrays example_render ! 0)
      \<and> Nullish \<notin> set (arrays example_render ! 1)
      \<and> \<not> no_content (example_host (ascii ''1'') (ascii ''hello''))
             (Some (example_message (ascii ''1'') (ascii ''hello''))))
   \<and> outcome (patchActionSheet (example_host (ascii ''1'') (ascii ''hello''))
        initial_cachedData (Some (example_message (ascii ''1'') (ascii ''hello'')))
        example_render) = Ended
   \<and> (\<exists>n t ic p. n \<le> length (arrays example_render ! 1)
         \<and> res_after (patchActionSheet (example_host (ascii ''1'') (ascii ''hello''))
             initial_cachedData (Some (example_message (ascii ''1'') (ascii ''hello'')))
             example_render) =
           example_render\<lparr>arrays := (arrays example_render)
             [1 := take n (arrays example_render ! 1)
                   @ FormRow (dislate (example_host (ascii ''1'') (ascii ''hello''))) t ic p
                   # drop n (arrays example_render ! 1)]\<rparr>)
   \<and> res_after (patchActionSheet (example_host (ascii ''1'') (ascii ''hello''))
        initial_cachedData (Some (example_message (ascii ''1'') (ascii ''hello'')))
        example_render) = example_patched
   \<and> no_content (example_host (ascii ''1'') []) (Some (example_message (ascii ''1'') []))
   \<and> outcome (patchActionSheet (example_host (ascii ''1'') []) initial_cachedData
        (Some (example_message (ascii ''1'') [])) example_render) = Returned example_render
   \<and> res_after (patchActionSheet (example_host (ascii ''1'') []) initial_cachedData
        (Some (example_message (ascii ''1'') [])) example_render) = example_render
   \<and> \<not> has_props (example_render\<lparr>has_props := False\<rparr>)
   \<and> outcome (patchActionSheet (example_host (ascii ''1'') (ascii ''hello''))
        initial_cachedData (Some (example_message (ascii ''1'') (ascii ''hello'')))
        (example_render\<lparr>has_props := False\<rparr>))
       = Returned (example_render\<lparr>has_props := False\<rparr>)
   \<and> res_after (patchActionSheet (example_host (ascii ''1'') (ascii ''hello''))
        initial_cachedData (Some (example_message (ascii ''1'') (ascii ''hello'')))
        (example_render\<lparr>has_props := False\<rparr>))
       = example_render\<lparr>has_props := False\<rparr>"
proof -
  let ?h = "example_host (ascii ''1'') (ascii ''hello'')"
  let ?arg = "Some (example_message (ascii ''1'') (ascii ''hello''))"
  let ?hE = "example_host (ascii ''1'') []"
  let ?argE = "Some (example_message (ascii ''1'') [])"
  have first: "\<forall>j<1. \<not> locatable (arrays example_render ! j)"
    using example_lists(4) by simp
  have a1: "has_props example_render \<and> 1 < length (arrays example_render)
      \<and> locatable (arrays example_render ! 1)
      \<and> (\<forall>j<1. \<not> locatable (arrays example_render ! j))
      \<and> Nullish \<notin> set (arrays example_render ! 1) \<and> \<not> no_content ?h ?arg"
    using example_lists(1,2,3) first example_lists(5) example_ids(3) by (intro conjI)
  have a2: "has_props example_render \<and> 1 < length (arrays example_render)
      \<and> locatable (arrays example_render ! 1)
      \<and> (\<forall>j<1. \<not> locatable (arrays example_render ! j))
      \<and> Nullish \<notin> set (arrays example_render ! 1) \<and> no_content ?hE ?argE"
    using example_lists(1,2,3) first example_lists(5) example_no_content by (intro conjI)
  have c: "\<not> has_props (example_render\<lparr>has_props := False\<rparr>)"
    by simp
  then have a3: "\<not> has_props (example_render\<lparr>has_props := False\<rparr>)
      \<or> (\<forall>r\<in>set (arrays (example_render\<lparr>has_props := False\<rparr>)). \<not> locatable r)"
    by (rule disjI1)
  note inserted = patchActionSheet_frame [of example_render 1 ?h ?arg initial_cachedData,
      THEN conjunct1, THEN mp, OF a1]
  note empty = patchActionSheet_frame [of example_render 1 ?hE ?argE initial_cachedData,
      THEN conjunct2, THEN conjunct1, THEN mp, OF a2]
  note unchanged = patchActionSheet_frame [of "example_render\<lparr>has_props := False\<rparr>" 1 ?h ?arg
      initial_cachedData, THEN conjunct2, THEN conjunct2, THEN mp, OF a3]
  from example_lists example_ids(3) inserted [THEN conjunct1] inserted [THEN conjunct2]
    example_after example_no_content empty [THEN conjunct1] empty [THEN conjunct2] c
    unchanged [THEN conjunct1] unchanged [THEN conjunct2]
  show ?thesis by (intro conjI)
qed

theorem row_label_by_cache_witness:
  "outcome (patchActionSheet (example_host (ascii ''1'') (ascii ''hello'')) initial_cachedData
     (Some (example_message (ascii ''1'') (ascii ''hello''))) example_render) = Ended
   \<and> message_id (example_message (ascii ''1'') (ascii ''hello'')) = Some (ascii ''1'')
   \<and> getMessage (example_host (ascii ''1'') (ascii ''hello''))
        (channel_id (example_message (ascii ''1'') (ascii ''hello''))) (Some (ascii ''1''))
       = Some (example_message (ascii ''1'') (ascii ''hello''))
   \<and> (\<exists>i n ic p.
         i < length (arrays example_render) \<and> n \<le> length (arrays example_render ! i)
         \<and> locatable (arrays example_render ! i)
         \<and> arrays (res_after (patchActionSheet (example_host (ascii ''1'') (ascii ''hello''))
              initial_cachedData (Some (example_message (ascii ''1'') (ascii ''hello'')))
              example_render)) ! i =
             take n (arrays example_render ! i)
             @ FormRow (dislate (example_host (ascii ''1'') (ascii ''hello'')))
                 (if \<exists>e\<in>set initial_cachedData. obj_key e = ascii ''1''
                  then Revert else Translate) ic p
             # drop n (arrays example_render ! i)
         \<and> translateType p =
             (if \<exists>e\<in>set initial_cachedData. obj_key e = ascii ''1''
              then Revert else Translate)
         \<and> ic = (if \<exists>e\<in>set initial_cachedData. obj_key e = ascii ''1''
                 then Icons_Revert else Icons_Translate))
   \<and> res_after (patchActionSheet (example_host (ascii ''1'') (ascii ''hello''))
        initial_cachedData (Some (example_message (ascii ''1'') (ascii ''hello'')))
        example_render) = example_patched
   \<and> outcome (patchActionSheet (example_host (ascii ''1'') (ascii ''hello''))
        (cachedData example_translated)
        (Some (example_message (ascii ''1'') (ascii ''hello''))) example_render) = Ended
   \<and> (\<exists>i n ic p.
         i < length (arrays example_render) \<and> n \<le> length (arrays example_render ! i)
         \<and> locatable (arrays example_render ! i)
         \<and> arrays (res_after (patchActionSheet (example_host (ascii ''1'') (ascii ''hello''))
              (cachedData example_translated)
              (Some (example_message (ascii ''1'') (ascii ''hello''))) example_render)) ! i =
             take n (arrays example_render ! i)
             @ FormRow (dislate (example_host (ascii ''1'') (ascii ''hello'')))
                 (if \<exists>e\<in>set (cachedData example_translated). obj_key e = ascii ''1''
                  then Revert else Translate) ic p
             # drop n (arrays example_render ! i)
         \<and> translateType p =
             (if \<exists>e\<in>set (cachedData example_translated). obj_key e = ascii ''1''
              then Revert else Translate)
         \<and> ic = (if \<exists>e\<in>set (cachedData example_translated). obj_key e = ascii ''1''
                 then Icons_Revert else Icons_Translate))
   \<and> res_after (patchActionSheet (example_host (ascii ''1'') (ascii ''hello''))
        (cachedData example_translated)
        (Some (example_message (ascii ''1'') (ascii ''hello''))) example_render)
       = example_patched_revert"
proof -
  let ?h = "example_host (ascii ''1'') (ascii ''hello'')"
  let ?m = "example_message (ascii ''1'') (ascii ''hello'')"
  have i: "message_id ?m = Some (ascii ''1'')"
    by (simp add: example_message_def)
  have g: "getMessage ?h (channel_id ?m) (Some (ascii ''1'')) = Some ?m"
    by (simp add: example_host_def)
  have stored: "\<forall>om. getMessage ?h (channel_id ?m) (Some (ascii ''1'')) = Some om
                  \<longrightarrow> message_id om \<in> {None, Some (ascii ''1'')}"
    using i g by simp
  note translate_side = row_label_by_cache [OF example_ended i stored]
  note revert_side = row_label_by_cache [OF example_ended_revert i stored]
  from example_ended i g translate_side example_after example_ended_revert revert_side
    example_after_revert
  show ?thesis by (intro conjI)
qed


text \<open>
  What a press in the state \<open>Revert\<close> dispatches: the cached content followed by a
  space, which is the separator of the template with nothing after it. The object found
  when the row was built is removed.
\<close>

lemma press_Revert_content:
  assumes "translateType p = Revert" and "existingCachedObject p = Some e"
    and "obj_key e = M" and "obj_value e = Some C" and "messageId p = Some M"
    and "press h Translate_string p s = Inr s'"
  shows "map (\<lambda>ev. content (event_message ev)) (dispatched s')
           = map (\<lambda>ev. content (event_message ev)) (dispatched s) @ [Some (C @ ascii '' '')]
         \<and> cachedData s' = filter (\<lambda>x. obj_ref x \<noteq> obj_ref e) (cachedData s)"
  using assms
  by (auto simp: press_def onTranslated_def editContent_def cached_get_def template_def
        cache_override_def bind_def Let_def split: sum.splits option.splits)

text \<open>
  Claim C3, on the code. The message with id \<open>1\<close> and content \<open>hello\<close> is translated
  and then reverted. The revert removes the entry from the cache, which is again the
  initial cache, but the content it dispatches is \<open>hello\<close> followed by a space, not
  the content that was cached.
\<close>

theorem revert_appends_space:
  "map_sum id contents
     (bind (open_and_press (ascii ''1'') (ascii ''hello'') (ascii ''bonjour'') initial_plugin)
           (open_and_press (ascii ''1'') (ascii ''hello'') (ascii ''bonjour'')))
     = Inr [Some (ascii ''bonjour `[japanese]`''), Some (ascii ''hello '')]
   \<and> map_sum id cachedData
       (bind (open_and_press (ascii ''1'') (ascii ''hello'') (ascii ''bonjour'') initial_plugin)
             (open_and_press (ascii ''1'') (ascii ''hello'') (ascii ''bonjour'')))
     = Inr initial_cachedData"
  by (simp add: press_simps open_and_press_def contents_def example_host_def
        example_message_def resolves_def)
     (simp add: ascii_def)

subsection \<open>Start and stop\<close>

text \<open>
  Whatever the host answers, \<open>onStart\<close> schedules nothing and never logs that it gives
  up; and when the \<open>catch\<close> block reaches \<open>setTimeout\<close>, the call of
  \<open>this.initializeActionSheet\<close>, which the object does not have, throws a TypeError out of
  \<open>onStart\<close>.
\<close>

lemma onStart_cache:
  "cachedData (fst (onStart h s)) = cachedData s \<and> next_ref (fst (onStart h s)) = next_ref s"
  by (simp add: onStart_def start_try_def start_catch_def open_toast_def Dislate_method_def
        Let_def split: sum.splits prod.splits option.splits)

lemma onStart_schedules_nothing:
  "timers (fst (onStart h s)) = timers s"
  by (simp add: onStart_def start_try_def start_catch_def open_toast_def Dislate_method_def
        Let_def split: sum.splits prod.splits option.splits)

lemma onStart_never_gives_up:
  "GivingUp \<in> set (logs (fst (onStart h s))) \<longleftrightarrow> GivingUp \<in> set (logs s)"
  by (simp add: onStart_def start_try_def start_catch_def open_toast_def Dislate_method_def
        Let_def split: sum.splits prod.splits option.splits)

lemma onStart_throws:
  assumes "toastEnable h = Inl e" and "toastEnable_catch h = Inr b"
    and "Toasts_open h (ToastRetry 1) = Inr u"
  shows "snd (onStart h s) = Some TypeError"
  using assms
  by (simp add: onStart_def start_try_def start_catch_def open_toast_def Dislate_method_def
        Let_def)

text \<open>
  Claim C6, on the code. The host throws when the setting is read in the \<open>try\<close> block
  and answers \<open>true\<close> in the \<open>catch\<close> block. \<open>onStart\<close> logs the error and the warning
  of a retry after ten seconds, shows the toast, and then throws a TypeError: no timer is
  set, so the installation is not attempted again.
\<close>

theorem onStart_does_not_retry:
  "onStart failing_start_host initial_plugin =
     (initial_plugin\<lparr>commands := [DebugCommand, TranslateCommand],
                     toasts := [ToastRetry 1],
                     logs := [TopLevelError (Error ''settings unavailable''), TryingAgain 1]\<rparr>,
      Some TypeError)"
  by (simp add: onStart_def start_try_def start_catch_def failing_start_host_def
        open_toast_def Dislate_method_def initial_plugin_def Let_def)

subsection \<open>Reverting a message that has no entry in the cache\<close>

text \<open>
  The filter of the revert side keeps every object when the object to remove is
  \<open>undefined\<close>, and when it is an object that is no longer in the cache.
\<close>

lemma cache_override_None: "cache_override None cache = cache"
  by (simp add: cache_override_def)

lemma cache_override_stale:
  assumes "\<forall>e\<in>set cache. obj_ref e \<noteq> obj_ref x"
  shows "cache_override (Some x) cache = cache"
  using assms by (simp add: cache_override_def)

lemma history_inv_loaded: "history_inv initial_plugin {}"
  by (simp add: history_inv_def cached_objects_def initial_plugin_def initial_cachedData_def)

lemma history_inv_same_cache:
  assumes "history_inv s H" and "cachedData s' = cachedData s" and "next_ref s' = next_ref s"
  shows "history_inv s' H"
  using assms by (simp add: history_inv_def cached_objects_def)

lemma history_inv_opened:
  assumes inv: "history_inv s H"
    and m: "mainElement h (cachedData s) arg = FormRow k t ic p"
  shows "history_inv s (insert p H)"
proof -
  note hd = mainElement_handler [OF m]
  have same: "cached_objects s (insert p H) = cached_objects s H"
  proof (cases "find_cached (cachedData s) (messageId_of h arg)")
    case None
    with hd show ?thesis by (auto simp: cached_objects_def)
  next
    case (Some x)
    then have "x \<in> set (cachedData s)"
      using find_cached_Some by blast
    with Some hd show ?thesis by (auto simp: cached_objects_def)
  qed
  have row: "translateType p = Revert \<longrightarrow>
        (\<exists>x. existingCachedObject p = Some x \<and> Some (obj_key x) = messageId p)"
  proof
    assume "translateType p = Revert"
    with hd obtain x where x: "find_cached (cachedData s) (messageId_of h arg) = Some x"
      by auto
    then have "Some (obj_key x) = messageId_of h arg"
      using find_cached_Some by blast
    with x hd show "\<exists>x. existingCachedObject p = Some x \<and> Some (obj_key x) = messageId p"
      by simp
  qed
  from inv row show ?thesis
    unfolding history_inv_def same by simp
qed

lemma history_inv_pressed:
  assumes inv: "history_inv s H" and pr: "press h Translate_string p s = Inr s'"
  shows "history_inv s' H"
proof (cases "translateType p")
  case Translate
  define new where "new = \<lparr>obj_ref = next_ref s, obj_key = template (messageId p),
            obj_value = messageContent p\<rparr>"
  from press_Translate [OF Translate pr]
  have c: "cachedData s' = new # cachedData s" and n: "next_ref s' = Suc (next_ref s)"
    by (simp_all add: new_def)
  have objs: "cached_objects s' H = insert new (cached_objects s H)"
    by (auto simp: cached_objects_def c)
  have ref: "obj_ref new = next_ref s"
    by (simp add: new_def)
  from inv have below: "\<forall>x\<in>cached_objects s H. obj_ref x < next_ref s"
    and one: "\<forall>x\<in>cached_objects s H. \<forall>y\<in>cached_objects s H. obj_ref x = obj_ref y \<longrightarrow> x = y"
    and rows: "\<forall>p\<in>H. translateType p = Revert \<longrightarrow>
           (\<exists>x. existingCachedObject p = Some x \<and> Some (obj_key x) = messageId p)"
    by (simp_all add: history_inv_def)
  have "\<forall>x\<in>cached_objects s' H. obj_ref x < next_ref s'"
    using below ref by (auto simp: objs n less_Suc_eq)
  moreover have "\<forall>x\<in>cached_objects s' H. \<forall>y\<in>cached_objects s' H.
                   obj_ref x = obj_ref y \<longrightarrow> x = y"
    using below one ref by (fastforce simp: objs)
  ultimately show ?thesis
    using rows by (simp add: history_inv_def)
next
  case Revert
  from press_Revert [OF Revert pr]
  have c: "set (cachedData s') \<subseteq> set (cachedData s)" and n: "next_ref s' = next_ref s"
    by (auto simp: cache_override_def)
  then have objs: "cached_objects s' H \<subseteq> cached_objects s H"
    by (auto simp: cached_objects_def)
  from inv have below: "\<forall>x\<in>cached_objects s H. obj_ref x < next_ref s"
    and one: "\<forall>x\<in>cached_objects s H. \<forall>y\<in>cached_objects s H. obj_ref x = obj_ref y \<longrightarrow> x = y"
    and rows: "\<forall>p\<in>H. translateType p = Revert \<longrightarrow>
           (\<exists>x. existingCachedObject p = Some x \<and> Some (obj_key x) = messageId p)"
    by (simp_all add: history_inv_def)
  have "\<forall>x\<in>cached_objects s' H. obj_ref x < next_ref s'"
    using below objs n by auto
  moreover have "\<forall>x\<in>cached_objects s' H. \<forall>y\<in>cached_objects s' H.
                   obj_ref x = obj_ref y \<longrightarrow> x = y"
    using one objs by blast
  ultimately show ?thesis
    using rows by (simp add: history_inv_def)
qed

lemma history_history_inv: "history s H \<Longrightarrow> history_inv s H"
proof (induction rule: history.induct)
  case history_loaded
  show ?case by (rule history_inv_loaded)
next
  case (history_started s H h)
  then show ?case
    using history_inv_same_cache [of s H "fst (onStart h s)"] by (simp add: onStart_cache)
next
  case (history_stopped s H)
  then show ?case
    using history_inv_same_cache [of s H "onStop s"] by (simp add: onStop_def)
next
  case (history_opened s H h arg res k t ic p)
  then show ?case
    using history_inv_opened by blast
next
  case (history_pressed s H p h Translate_string s')
  then show ?case
    using history_inv_pressed by blast
qed

text \<open>
  The object of a row in the state \<open>Revert\<close> whose message has no entry in the cache is
  not in the cache, so whenever a press of such a row runs to its end the cache is as it
  was.
\<close>

lemma stale_revert_gone:
  assumes "history s H" and "p \<in> H"
    and "translateType p = Revert" and "messageId p = Some M"
    and "\<forall>e\<in>set (cachedData s). obj_key e \<noteq> M"
  shows "\<exists>x. existingCachedObject p = Some x \<and> obj_key x = M
              \<and> (\<forall>e\<in>set (cachedData s). obj_ref e \<noteq> obj_ref x)"
proof -
  have inv: "history_inv s H"
    using assms(1) by (rule history_history_inv)
  with assms(2,3,4) obtain x where x: "existingCachedObject p = Some x" "obj_key x = M"
    by (auto simp: history_inv_def)
  have "\<forall>e\<in>set (cachedData s). obj_ref e \<noteq> obj_ref x"
  proof
    fix e assume e: "e \<in> set (cachedData s)"
    show "obj_ref e \<noteq> obj_ref x"
    proof
      assume same: "obj_ref e = obj_ref x"
      have "e \<in> cached_objects s H" "x \<in> cached_objects s H"
        using e x(1) assms(2) by (auto simp: cached_objects_def)
      with inv same have "e = x"
        by (auto simp: history_inv_def)
      with e assms(5) x(2) show False by auto
    qed
  qed
  with x show ?thesis by blast
qed

lemma stale_revert_keeps_cache:
  assumes "history s H" and "p \<in> H"
    and "translateType p = Revert" and "messageId p = Some M"
    and "\<forall>e\<in>set (cachedData s). obj_key e \<noteq> M"
    and "press h Translate_string p s = Inr s'"
  shows "cachedData s' = cachedData s"
proof -
  from stale_revert_gone [OF assms(1-5)] obtain x where
    x: "existingCachedObject p = Some x"
    and gone: "\<forall>e\<in>set (cachedData s). obj_ref e \<noteq> obj_ref x"
    by blast
  from press_Revert [OF assms(3,6)] x cache_override_stale [OF gone]
  show ?thesis by simp
qed

text \<open>
  Claim C8. Let a row in the state \<open>Revert\<close> have been built for the message \<open>M\<close> at some
  point of a history, and let \<open>M\<close> have no entry in the cache now (as when the message
  was reverted from another menu in between). A press of that row does not throw when
  the host does its part (the message was in the store when the row was built, the
  promise of \<open>Translate.string\<close> resolves, the channel is known): the callback runs to
  its end, and the cache after it is the cache before it.
\<close>

theorem stale_revert_noop:
  assumes "history s H" and "p \<in> H"
    and "translateType p = Revert" and "messageId p = Some M"
    and "\<forall>e\<in>set (cachedData s). obj_key e \<noteq> M"
    and "originalMessage p = Some m"
    and "Translate_string \<lparr>call_text = content m, call_fromLanguage = DislateLangFrom h,
           call_toLanguage = DislateLangTo h, call_cancel = True\<rparr> = Inr r"
    and "getChannel h (channel_id m) = Some ch"
  shows "\<exists>s'. press h Translate_string p s = Inr s' \<and> cachedData s' = cachedData s"
proof -
  from stale_revert_gone [OF assms(1-5)] obtain x where
    x: "existingCachedObject p = Some x"
    by blast
  obtain s' where s': "press h Translate_string p s = Inr s'"
    using assms(3,6,7,8) x
    by (auto simp: press_def onPress_def onTranslated_def editContent_def
          bind_def Let_def split: option.splits)
  have "cachedData s' = cachedData s"
    using assms(1-5) s' by (rule stale_revert_keeps_cache)
  with s' show ?thesis by blast
qed

text \<open>
  The example: the message with id \<open>1\<close> is translated, the menu is opened on it again,
  which builds a row in the state \<open>Revert\<close>, and that row is pressed twice. The second
  press finds no entry for the message.
\<close>

theorem stale_revert_noop_witness:
  "history example_reverted {example_revert_handler, example_handler}
   \<and> example_revert_handler \<in> {example_revert_handler, example_handler}
   \<and> translateType example_revert_handler = Revert
   \<and> messageId example_revert_handler = Some (ascii ''1'')
   \<and> cachedData example_reverted = [sentinel]
   \<and> obj_key sentinel \<noteq> ascii ''1''
   \<and> originalMessage example_revert_handler
       = Some (example_message (ascii ''1'') (ascii ''hello''))
   \<and> resolves (ascii ''hello'')
        \<lparr>call_text = content (example_message (ascii ''1'') (ascii ''hello'')),
         call_fromLanguage = DislateLangFrom (example_host (ascii ''1'') (ascii ''hello'')),
         call_toLanguage = DislateLangTo (example_host (ascii ''1'') (ascii ''hello'')),
         call_cancel = True\<rparr> = Inr (ascii ''hello'')
   \<and> getChannel (example_host (ascii ''1'') (ascii ''hello''))
        (channel_id (example_message (ascii ''1'') (ascii ''hello'')))
       = Some \<lparr>channel_guild_id = Some (ascii ''9'')\<rparr>
   \<and> (\<exists>s'. press (example_host (ascii ''1'') (ascii ''hello'')) (resolves (ascii ''hello''))
               example_revert_handler example_reverted = Inr s'
             \<and> cachedData s' = cachedData example_reverted)"
proof -
  let ?h = "example_host (ascii ''1'') (ascii ''hello'')"
  let ?m = "example_message (ascii ''1'') (ascii ''hello'')"
  have e0: "outcome (patchActionSheet ?h (cachedData initial_plugin) (Some ?m) example_render)
              = Ended"
    using example_ended by (simp add: initial_plugin_def)
  have m0: "mainElement ?h (cachedData initial_plugin) (Some ?m)
              = FormRow (ascii ''dislate'') Translate Icons_Translate example_handler"
    using example_mainElement by (simp add: initial_plugin_def)
  have h1: "history initial_plugin {example_handler}"
    by (rule history_opened [OF history_loaded e0 m0])
  have h2: "history example_translated {example_handler}"
    by (rule history_pressed [OF h1 _ example_press]) simp
  have h3: "history example_translated {example_revert_handler, example_handler}"
    by (rule history_opened [OF h2 example_ended_revert example_mainElement_revert])
  have h4: "history example_reverted {example_revert_handler, example_handler}"
    by (rule history_pressed [OF h3 _ example_press_revert]) simp
  have mem: "example_revert_handler \<in> {example_revert_handler, example_handler}"
    by simp
  have t: "translateType example_revert_handler = Revert"
    and i: "messageId example_revert_handler = Some (ascii ''1'')"
    and om: "originalMessage example_revert_handler = Some ?m"
    by (simp_all add: example_revert_handler_def)
  have c: "cachedData example_reverted = [sentinel]"
    by (simp add: example_reverted_def)
  have k: "obj_key sentinel \<noteq> ascii ''1''"
    by (simp add: sentinel_def ascii_def)
  have none: "\<forall>e\<in>set (cachedData example_reverted). obj_key e \<noteq> ascii ''1''"
    unfolding c using k by simp
  have tr: "resolves (ascii ''hello'')
        \<lparr>call_text = content ?m, call_fromLanguage = DislateLangFrom ?h,
         call_toLanguage = DislateLangTo ?h, call_cancel = True\<rparr> = Inr (ascii ''hello'')"
    by (simp add: resolves_def)
  have ch: "getChannel ?h (channel_id ?m) = Some \<lparr>channel_guild_id = Some (ascii ''9'')\<rparr>"
    by (simp add: example_host_def)
  note noop = stale_revert_noop [where h = ?h and Translate_string = "resolves (ascii ''hello'')"
      and m = ?m and r = "ascii ''hello''", OF h4 mem t i none om tr ch]
  from h4 mem t i c k om tr ch noop show ?thesis by (intro conjI)
qed

subsection \<open>The sentinel of the cache\<close>

text \<open>
  In a session that opens the menu on no message with id \<open>invalid_id\<close>, the sentinel
  stays in the cache, it is the only object with reference 0, and references are
  allocated from 1 on.
\<close>

lemma cache_inv_initial: "cache_inv initial_plugin"
  by (simp add: cache_inv_def initial_plugin_def initial_cachedData_def sentinel_def)

lemma cache_inv_onStart: "cache_inv s \<Longrightarrow> cache_inv (fst (onStart h s))"
  by (simp add: cache_inv_def onStart_cache)

lemma cache_inv_onStop: "cache_inv s \<Longrightarrow> cache_inv (onStop s)"
  by (simp add: cache_inv_def onStop_def)

lemma cache_inv_press:
  assumes s0: "cache_inv s0" and s: "cache_inv s"
    and m: "mainElement h (cachedData s0) arg = FormRow k t ic p"
    and valid: "messageId_of h arg \<noteq> Some (ascii ''invalid_id'')"
    and pr: "press h' Translate_string p s = Inr s'"
  shows "cache_inv s'"
proof -
  note hd = mainElement_handler [OF m]
  show ?thesis
  proof (cases t)
    case Translate
    with hd have "translateType p = Translate" by simp
    from press_Translate [OF this pr] s show ?thesis
      by (auto simp: cache_inv_def)
  next
    case Revert
    with hd have tr: "translateType p = Revert" by simp
    from hd Revert obtain e where e: "find_cached (cachedData s0) (messageId_of h arg) = Some e"
      by auto
    then have "e \<in> set (cachedData s0)" "Some (obj_key e) = messageId_of h arg"
      using find_cached_Some by blast+
    with valid have "e \<noteq> sentinel"
      by (auto simp: sentinel_def)
    with s0 \<open>e \<in> set (cachedData s0)\<close> have ref: "obj_ref e \<noteq> 0"
      by (auto simp: cache_inv_def)
    have "existingCachedObject p = Some e"
      using hd e by simp
    with press_Revert [OF tr pr] have
      "cachedData s' = filter (\<lambda>x. obj_ref x \<noteq> obj_ref e) (cachedData s)"
      "next_ref s' = next_ref s"
      by (simp_all add: cache_override_def)
    with s ref show ?thesis
      by (auto simp: cache_inv_def sentinel_def)
  qed
qed

lemma session_cache_inv:
  assumes "session ids s" and "Some (ascii ''invalid_id'') \<notin> ids"
  shows "cache_inv s"
  using assms
proof (induction rule: session.induct)
  case loaded
  show ?case by (rule cache_inv_initial)
next
  case (started s h)
  then show ?case by (simp add: cache_inv_onStart)
next
  case (stopped s)
  then show ?case by (simp add: cache_inv_onStop)
next
  case (pressed s0 s h arg res k t ic p h' Translate_string s')
  from pressed.hyps(5) pressed.prems have "messageId_of h arg \<noteq> Some (ascii ''invalid_id'')"
    by auto
  with pressed show ?case
    using cache_inv_press by blast
qed

text \<open>
  Claim C10, as stated, fails: the sentinel is removed by a revert of a message whose id
  is \<open>invalid_id\<close>. The menu on such a message finds the sentinel as its cached object,
  so the row is in the state \<open>Revert\<close>, and a press leaves the cache empty.
\<close>

theorem sentinel_removed_counterexample:
  "map_sum id cachedData
     (open_and_press (ascii ''invalid_id'') (ascii ''hello'') (ascii ''bonjour'') initial_plugin)
   = Inr []"
  by (simp add: press_simps open_and_press_def example_host_def example_message_def
        resolves_def)

text \<open>
  Claim C10, amended. The cache starts as the one sentinel object, keyed \<open>invalid_id\<close>
  and holding \<open>rosie sucks\<close>. In every state of a session (starts, stops, and presses of
  rows built in the session) in which no menu was opened on a message with id
  \<open>invalid_id\<close>, the sentinel is in the cache, so the cache is not empty; and \<open>onStop\<close>
  leaves the cache as it is.
\<close>

theorem sentinel_kept:
  assumes "session ids s" and "Some (ascii ''invalid_id'') \<notin> ids"
  shows "cachedData initial_plugin =
           [\<lparr>obj_ref = 0, obj_key = ascii ''invalid_id'',
             obj_value = Some (ascii ''rosie sucks'')\<rparr>]
         \<and> \<lparr>obj_ref = 0, obj_key = ascii ''invalid_id'',
             obj_value = Some (ascii ''rosie sucks'')\<rparr> \<in> set (cachedData s)
         \<and> cachedData s \<noteq> []
         \<and> cachedData (onStop s) = cachedData s"
proof -
  have "cache_inv s"
    using assms by (rule session_cache_inv)
  then have "sentinel \<in> set (cachedData s)"
    by (simp add: cache_inv_def)
  then show ?thesis
    by (auto simp: sentinel_def onStop_def initial_plugin_def initial_cachedData_def)
qed

theorem sentinel_kept_witness:
  "session {Some (ascii ''1'')} (onStop example_translated)
   \<and> Some (ascii ''invalid_id'') \<notin> {Some (ascii ''1'')}
   \<and> cachedData initial_plugin =
           [\<lparr>obj_ref = 0, obj_key = ascii ''invalid_id'',
             obj_value = Some (ascii ''rosie sucks'')\<rparr>]
   \<and> \<lparr>obj_ref = 0, obj_key = ascii ''invalid_id'',
             obj_value = Some (ascii ''rosie sucks'')\<rparr>
        \<in> set (cachedData (onStop example_translated))
   \<and> cachedData (onStop example_translated) \<noteq> []
   \<and> cachedData (onStop (onStop example_translated)) = cachedData (onStop example_translated)"
proof -
  let ?h = "example_host (ascii ''1'') (ascii ''hello'')"
  let ?arg = "Some (example_message (ascii ''1'') (ascii ''hello''))"
  have init: "session {Some (ascii ''1'')} initial_plugin"
    by (rule session.loaded)
  have r: "outcome (patchActionSheet ?h (cachedData initial_plugin) ?arg example_render) = Ended"
    using example_ended by (simp add: initial_plugin_def)
  have m: "mainElement ?h (cachedData initial_plugin) ?arg
            = FormRow (ascii ''dislate'') Translate Icons_Translate example_handler"
    using example_mainElement by (simp add: initial_plugin_def)
  have i: "messageId_of ?h ?arg \<in> {Some (ascii ''1'')}"
    by (simp add: example_ids(1))
  have "session {Some (ascii ''1'')} example_translated"
    by (rule session.pressed [OF init init r m i example_press])
  then have s: "session {Some (ascii ''1'')} (onStop example_translated)"
    by (rule session.stopped)
  have v: "Some (ascii ''invalid_id'') \<notin> {Some (ascii ''1'')}"
    by (simp add: ascii_def)
  from s v sentinel_kept [OF s v] show ?thesis by (intro conjI) (elim conjE, assumption)+
qed

end
